theory Spec2Isabelle
  imports Complex_Main
begin

section \<open>Numbers\<close>

text \<open>
  The TypeScript sources compute with \<open>number\<close>. The embedding reads every amount and
  rate as a \<open>real\<close>, so the rounding of floating-point arithmetic is not modelled;
  loop counters and year counts are \<open>nat\<close>, ages and calendar years are \<open>int\<close>. An
  array read that may be out of range, which yields \<open>undefined\<close> in the source, is an
  \<open>option\<close> here, and so is a result that the source computes as \<open>0 / 0\<close>.
  Field and variable names are those of the source; where two interfaces of the source
  share a field name, or a name is taken, the later one carries a prefix or a suffix.
\<close>

definition jsIndex :: "'a list \<Rightarrow> nat \<Rightarrow> 'a option" where
  "jsIndex xs i = (if i < length xs then Some (xs ! i) else None)"

text \<open>\<open>Math.round\<close>: the nearest integer, a tie going up.\<close>

definition mathRound :: "real \<Rightarrow> real" where
  "mathRound x = of_int \<lfloor>x + 1 / 2\<rfloor>"

section \<open>calculator.ts: the data model\<close>

record PortfolioInputs =
  currentSavings :: real
  monthlyContribution :: real
  yearsToRetirement :: nat
  expectedReturn :: real
  inflationRate :: real
  withdrawalRate :: real

record SimulationResult =
  year :: nat
  age :: int
  portfolioValue :: real
  contribution :: real
  returns :: real
  withdrawal :: real
  inflationAdjustedValue :: real

record FIREResult =
  portfolioAtRetirement :: real
  annualWithdrawal :: real
  monthlyWithdrawal :: real
  yearsOfRunway :: nat
  projections :: "SimulationResult list"
  successProbability :: real
  fireNumber :: real

section \<open>calculateAccumulation\<close>

text \<open>
  The loop \<open>for (year = 0; year <= yearsToRetirement; year++)\<close>: the arguments after
  the counter are the loop's variables \<open>portfolioValue\<close> and \<open>cumulativeInflation\<close>;
  the result is the list of records pushed from this iteration on.
\<close>

function accumulationLoop ::
  "PortfolioInputs \<Rightarrow> int \<Rightarrow> nat \<Rightarrow> real \<Rightarrow> real \<Rightarrow> SimulationResult list" where
  "accumulationLoop inputs currentAge yr pv cumInfl =
     (if yr \<le> yearsToRetirement inputs then
        (let contrib = (if yr = 0 then 0 else monthlyContribution inputs * 12);
             rets = pv * expectedReturn inputs;
             cumInfl' = cumInfl * (1 + inflationRate inputs)
         in \<lparr>year = yr, age = currentAge + int yr, portfolioValue = pv,
               contribution = contrib, returns = rets, withdrawal = 0,
               inflationAdjustedValue = pv / cumInfl'\<rparr>
            # accumulationLoop inputs currentAge (yr + 1) (pv + contrib + rets) cumInfl')
      else [])"
  by pat_completeness auto
termination
  by (relation "measure (\<lambda>(inputs, currentAge, yr, pv, cumInfl).
        Suc (yearsToRetirement inputs) - yr)") auto

declare accumulationLoop.simps [simp del]

definition calculateAccumulation :: "PortfolioInputs \<Rightarrow> int \<Rightarrow> SimulationResult list" where
  "calculateAccumulation inputs currentAge =
     accumulationLoop inputs currentAge 0 (currentSavings inputs) 1"

section \<open>calculateDrawdown\<close>

text \<open>The record pushed for every year that remains once the portfolio is depleted.\<close>

definition depletedRecord :: "int \<Rightarrow> nat \<Rightarrow> SimulationResult" where
  "depletedRecord startAge remaining =
     \<lparr>year = remaining, age = startAge + int remaining, portfolioValue = 0,
      contribution = 0, returns = 0, withdrawal = 0, inflationAdjustedValue = 0\<rparr>"

text \<open>
  The loop \<open>for (year = 0; year <= years; year++)\<close> with its variables
  \<open>portfolioValue\<close>, \<open>currentWithdrawal\<close> and \<open>cumulativeInflation\<close>. When the updated
  portfolio is not positive the inner loop pushes a depleted record for each of the
  years \<open>year + 1 .. years\<close> and the outer loop is left by \<open>break\<close>.
\<close>

function drawdownLoop ::
  "real \<Rightarrow> real \<Rightarrow> nat \<Rightarrow> int \<Rightarrow> nat \<Rightarrow> real \<Rightarrow> real \<Rightarrow> real \<Rightarrow> SimulationResult list" where
  "drawdownLoop expRet inflRate years startAge yr pv curWd cumInfl =
     (if yr \<le> years then
        (let rets = pv * expRet;
             wd = (if yr = 0 then 0 else curWd);
             cumInfl' = cumInfl * (1 + inflRate);
             rec = \<lparr>year = yr, age = startAge + int yr, portfolioValue = max 0 pv,
                    contribution = 0, returns = (if pv > 0 then rets else 0),
                    withdrawal = wd, inflationAdjustedValue = max 0 pv / cumInfl'\<rparr>;
             pv' = pv + rets - wd;
             curWd' = curWd * (1 + inflRate)
         in if pv' \<le> 0
            then rec # map (depletedRecord startAge) [yr + 1 ..< years + 1]
            else rec # drawdownLoop expRet inflRate years startAge (yr + 1) pv' curWd' cumInfl')
      else [])"
  by pat_completeness auto
termination
  by (relation "measure (\<lambda>(expRet, inflRate, years, startAge, yr, pv, curWd, cumInfl).
        Suc years - yr)") auto

declare drawdownLoop.simps [simp del]

definition calculateDrawdown ::
  "real \<Rightarrow> real \<Rightarrow> real \<Rightarrow> real \<Rightarrow> nat \<Rightarrow> int \<Rightarrow> SimulationResult list" where
  "calculateDrawdown startingPortfolio annualWd expRet inflRate years startAge =
     drawdownLoop expRet inflRate years startAge 0 startingPortfolio annualWd 1"

section \<open>calculateFIRE\<close>

text \<open>\<open>Array.prototype.findIndex\<close>, with \<open>None\<close> for the source's \<open>-1\<close>.\<close>

fun findIndex :: "('a \<Rightarrow> bool) \<Rightarrow> 'a list \<Rightarrow> nat option" where
  "findIndex p [] = None"
| "findIndex p (x # xs) =
     (if p x then Some 0 else map_option Suc (findIndex p xs))"

text \<open>
  \<open>retirementYears\<close> has the default 40 in the source; here it is always passed.
  The list of accumulation records is never empty (year 0 is always pushed), so its
  last element exists. \<open>fireNumber\<close> divides by the withdrawal rate: the field follows
  the source for a rate other than 0.
\<close>

definition calculateFIRE :: "PortfolioInputs \<Rightarrow> int \<Rightarrow> real \<Rightarrow> nat \<Rightarrow> FIREResult" where
  "calculateFIRE inputs currentAge monthlyExpenses retirementYears =
     (let accumulationResults = calculateAccumulation inputs currentAge;
          atRetirement = portfolioValue (last accumulationResults);
          annualExpenses = monthlyExpenses * 12;
          fireNum = annualExpenses / withdrawalRate inputs;
          annualWd = atRetirement * withdrawalRate inputs;
          monthlyWd = annualWd / 12;
          retirementAge = currentAge + int (yearsToRetirement inputs);
          drawdownResults = calculateDrawdown atRetirement annualWd
             (expectedReturn inputs - 0.01) (inflationRate inputs) retirementYears retirementAge;
          depletionYear = findIndex (\<lambda>r. portfolioValue r \<le> 0) drawdownResults;
          runway = (case depletionYear of None \<Rightarrow> retirementYears | Some d \<Rightarrow> d);
          successProb = (if atRetirement \<ge> fireNum then 0.95
                         else (atRetirement / fireNum) * 0.8)
      in \<lparr>portfolioAtRetirement = atRetirement, annualWithdrawal = annualWd,
          monthlyWithdrawal = monthlyWd, yearsOfRunway = runway,
          projections = accumulationResults @ drop 1 drawdownResults,
          successProbability = min successProb 0.99, fireNumber = fireNum\<rparr>)"

section \<open>runMonteCarloSimulation\<close>

record MonteCarloResult =
  percentile5 :: "real option list"
  percentile25 :: "real option list"
  percentile50 :: "real option list"
  percentile75 :: "real option list"
  percentile95 :: "real option list"
  successRate :: "real option"
  medianEndValue :: "real option"
  years :: "int list"

text \<open>
  \<open>Math.random()\<close> is a parameter: \<open>rnd k\<close> is the value of the \<open>k\<close>-th call, and
  every loop threads the number of calls made so far.
\<close>

definition volatility :: real where
  "volatility = 0.15"

record TrialState =
  yearlyValues :: "real list"
  portfolio :: real
  pendingWithdrawal :: real
  calls :: nat

text \<open>The body of the accumulation loop of one trial.\<close>

definition mcAccumulationStep :: "PortfolioInputs \<Rightarrow> (nat \<Rightarrow> real) \<Rightarrow> TrialState \<Rightarrow> TrialState" where
  "mcAccumulationStep inputs rnd st =
     (let randomReturn = expectedReturn inputs + (rnd (calls st) - 0.5) * 2 * volatility;
          p = portfolio st * (1 + randomReturn) + monthlyContribution inputs * 12
      in st\<lparr>yearlyValues := yearlyValues st @ [p], portfolio := p, calls := calls st + 1\<rparr>)"

text \<open>The body of the retirement loop of one trial.\<close>

definition mcRetirementStep :: "PortfolioInputs \<Rightarrow> (nat \<Rightarrow> real) \<Rightarrow> TrialState \<Rightarrow> TrialState" where
  "mcRetirementStep inputs rnd st =
     (let randomReturn = (expectedReturn inputs - 0.01) + (rnd (calls st) - 0.5) * 2 * volatility;
          p = portfolio st * (1 + randomReturn) - pendingWithdrawal st
      in st\<lparr>yearlyValues := yearlyValues st @ [max 0 p], portfolio := p,
            pendingWithdrawal := pendingWithdrawal st * (1 + inflationRate inputs),
            calls := calls st + 1\<rparr>)"

text \<open>
  One trial: the two phases run \<open>yearsToRetirement\<close> and \<open>retirementYears\<close> times
  (their bodies do not read the loop counter); \<open>c\<close> is the number of random draws
  made by the earlier trials.
\<close>

definition mcTrial :: "PortfolioInputs \<Rightarrow> nat \<Rightarrow> (nat \<Rightarrow> real) \<Rightarrow> nat \<Rightarrow> TrialState" where
  "mcTrial inputs retirementYears rnd c =
     (let st0 = \<lparr>yearlyValues = [], portfolio = currentSavings inputs,
                 pendingWithdrawal = 0, calls = c\<rparr>;
          st1 = (mcAccumulationStep inputs rnd ^^ yearsToRetirement inputs) st0;
          st2 = st1\<lparr>pendingWithdrawal := portfolio st1 * withdrawalRate inputs\<rparr>
      in (mcRetirementStep inputs rnd ^^ retirementYears) st2)"

text \<open>\<open>r[r.length - 1]\<close>, which is \<open>undefined\<close> for an empty array.\<close>

definition lastOpt :: "'a list \<Rightarrow> 'a option" where
  "lastOpt r = (if r = [] then None else Some (last r))"

record TrialsState =
  allResults :: "real list list"
  successCount :: nat
  draws :: nat

text \<open>The body of the loop over the trials; \<open>undefined > 0\<close> is false.\<close>

definition mcSimStep :: "PortfolioInputs \<Rightarrow> nat \<Rightarrow> (nat \<Rightarrow> real) \<Rightarrow> TrialsState \<Rightarrow> TrialsState" where
  "mcSimStep inputs retirementYears rnd ts =
     (let st = mcTrial inputs retirementYears rnd (draws ts);
          success = (case lastOpt (yearlyValues st) of None \<Rightarrow> False | Some v \<Rightarrow> v > 0)
      in \<lparr>allResults = allResults ts @ [yearlyValues st],
          successCount = (if success then successCount ts + 1 else successCount ts),
          draws = calls st\<rparr>)"

definition mcTrials :: "PortfolioInputs \<Rightarrow> nat \<Rightarrow> (nat \<Rightarrow> real) \<Rightarrow> nat \<Rightarrow> TrialsState" where
  "mcTrials inputs retirementYears rnd simulations =
     (mcSimStep inputs retirementYears rnd ^^ simulations)
       \<lparr>allResults = [], successCount = 0, draws = 0\<rparr>"

text \<open>
  \<open>Array.prototype.sort\<close> with the comparator \<open>(a, b) => a - b\<close> on an array whose
  elements may be \<open>undefined\<close>: the numbers ascending, then every \<open>undefined\<close>.
\<close>

definition jsSort :: "real option list \<Rightarrow> real option list" where
  "jsSort xs = map Some (sort (List.map_filter id xs))
               @ replicate (length (filter (\<lambda>x. x = None) xs)) None"

text \<open>\<open>allResults.map(r => r[year]).sort((a, b) => a - b)\<close>\<close>

definition valuesAtYear :: "real list list \<Rightarrow> nat \<Rightarrow> real option list" where
  "valuesAtYear results yr = jsSort (map (\<lambda>r. jsIndex r yr) results)"

text \<open>\<open>Math.floor(simulations * p)\<close>\<close>

definition rankIndex :: "nat \<Rightarrow> real \<Rightarrow> nat" where
  "rankIndex simulations p = nat \<lfloor>real simulations * p\<rfloor>"

text \<open>\<open>valuesAtYear[Math.floor(simulations * p)]\<close>: reading a sorted array at a rank.\<close>

definition atRank :: "real option list \<Rightarrow> nat \<Rightarrow> real \<Rightarrow> real option" where
  "atRank arr simulations p =
     (case jsIndex arr (rankIndex simulations p) of None \<Rightarrow> None | Some v \<Rightarrow> v)"

text \<open>
  \<open>monthlyExpenses\<close> is a parameter the source never reads. \<open>successRate\<close> is
  \<open>None\<close> where the source computes \<open>0 / 0\<close>.
\<close>

definition runMonteCarloSimulation ::
  "PortfolioInputs \<Rightarrow> int \<Rightarrow> real \<Rightarrow> nat \<Rightarrow> nat \<Rightarrow> (nat \<Rightarrow> real) \<Rightarrow> MonteCarloResult" where
  "runMonteCarloSimulation inputs currentAge monthlyExpenses simulations retirementYears rnd =
     (let ts = mcTrials inputs retirementYears rnd simulations;
          totalYears = yearsToRetirement inputs + retirementYears;
          column = (\<lambda>p. map (\<lambda>yr. atRank (valuesAtYear (allResults ts) yr) simulations p)
                            [0 ..< totalYears]);
          endValues = jsSort (map lastOpt (allResults ts))
      in \<lparr>percentile5 = column 0.05, percentile25 = column 0.25, percentile50 = column 0.50,
          percentile75 = column 0.75, percentile95 = column 0.95,
          successRate = (if simulations = 0 then None
                         else Some (real (successCount ts) / real simulations)),
          medianEndValue = atRank endValues simulations 0.5,
          years = map (\<lambda>yr. currentAge + int yr + 1) [0 ..< totalYears]\<rparr>)"

section \<open>calculateAffordableBudget and the runway of CountryDetail\<close>

record AffordableBudget =
  monthly :: real
  annual :: real

definition calculateAffordableBudget :: "real \<Rightarrow> real \<Rightarrow> AffordableBudget" where
  "calculateAffordableBudget pValue wRate =
     (let annualWithdrawalSGD = pValue * wRate;
          monthlyWithdrawalSGD = annualWithdrawalSGD / 12;
          sgdToUsd = 0.74;
          monthlyUSD = monthlyWithdrawalSGD * sgdToUsd
      in \<lparr>monthly = monthlyUSD, annual = monthlyUSD * 12\<rparr>)"

datatype BudgetTier = frugal | moderate | comfortable

text \<open>
  Of a country, the component reads \<open>costOfLiving.total[selectedBudget]\<close> for the
  runway; the record keeps that table only.
\<close>

record Country =
  costOfLivingTotal :: "BudgetTier \<Rightarrow> real"

record CountryRunway =
  annualBudget :: real
  annualWithdrawalUSD :: real
  runwayYears :: real

text \<open>
  The values computed at the head of the component \<open>CountryDetail\<close>: \<open>annualBudget\<close>,
  \<open>annualWithdrawal\<close> and \<open>yearsOfRunway\<close>. The division follows the source for an
  annual budget other than 0.
\<close>

definition CountryDetail :: "Country \<Rightarrow> BudgetTier \<Rightarrow> real \<Rightarrow> real \<Rightarrow> CountryRunway" where
  "CountryDetail country selectedBudget pValue wRate =
     (let monthlyBudget = costOfLivingTotal country selectedBudget;
          annualBud = monthlyBudget * 12;
          sgdToUsd = 0.74;
          annualWd = pValue * wRate * sgdToUsd
      in \<lparr>annualBudget = annualBud, annualWithdrawalUSD = annualWd,
          runwayYears = annualWd / annualBud\<rparr>)"

section \<open>cpf.ts: rates and limits\<close>

definition CPF_RATES_OA :: real where "CPF_RATES_OA = 0.025"
definition CPF_RATES_SA :: real where "CPF_RATES_SA = 0.04"
definition CPF_RATES_MA :: real where "CPF_RATES_MA = 0.04"
definition CPF_RATES_RA :: real where "CPF_RATES_RA = 0.04"
definition CPF_RATES_EXTRA_FIRST_60K :: real where "CPF_RATES_EXTRA_FIRST_60K = 0.01"
definition CPF_RATES_EXTRA_55_PLUS_FIRST_30K :: real where
  "CPF_RATES_EXTRA_55_PLUS_FIRST_30K = 0.01"

record Allocation =
  allocOA :: real
  allocSA :: real
  allocMA :: real

record BracketRates =
  totalRate :: real
  employee :: real
  employer :: real
  allocation :: Allocation

definition UNDER_55 :: BracketRates where
  "UNDER_55 = \<lparr>totalRate = 0.37, employee = 0.20, employer = 0.17,
     allocation = \<lparr>allocOA = 0.6217, allocSA = 0.1622, allocMA = 0.2162\<rparr>\<rparr>"

definition AGE_55_60 :: BracketRates where
  "AGE_55_60 = \<lparr>totalRate = 0.295, employee = 0.15, employer = 0.145,
     allocation = \<lparr>allocOA = 0.4068, allocSA = 0.2373, allocMA = 0.3559\<rparr>\<rparr>"

definition AGE_60_65 :: BracketRates where
  "AGE_60_65 = \<lparr>totalRate = 0.205, employee = 0.095, employer = 0.11,
     allocation = \<lparr>allocOA = 0.1463, allocSA = 0.3902, allocMA = 0.4634\<rparr>\<rparr>"

definition AGE_65_70 :: BracketRates where
  "AGE_65_70 = \<lparr>totalRate = 0.155, employee = 0.075, employer = 0.08,
     allocation = \<lparr>allocOA = 0.0645, allocSA = 0.4516, allocMA = 0.4839\<rparr>\<rparr>"

text \<open>The four brackets of \<open>CPF_CONTRIBUTION_RATES\<close>, in the order of the source.\<close>

definition CPF_CONTRIBUTION_RATES :: "BracketRates list" where
  "CPF_CONTRIBUTION_RATES = [UNDER_55, AGE_55_60, AGE_60_65, AGE_65_70]"

definition allocationSum :: "BracketRates \<Rightarrow> real" where
  "allocationSum b = allocOA (allocation b) + allocSA (allocation b) + allocMA (allocation b)"

definition OA_WAGE_CEILING :: real where "OA_WAGE_CEILING = 6800"

section \<open>calculateCPFContribution and calculateCPFInterest\<close>

text \<open>
  The shape \<open>{OA, SA, MA, total}\<close> of the balances, and of what the two functions
  return.
\<close>

record CPFBalances =
  OA :: real
  SA :: real
  MA :: real
  totalBal :: real

record CPFProjection =
  projAge :: int
  projYear :: nat
  projOA :: real
  projSA :: real
  projMA :: real
  projRA :: real
  projTotal :: real
  contributions :: real
  interest :: real

definition calculateCPFContribution :: "real \<Rightarrow> int \<Rightarrow> CPFBalances" where
  "calculateCPFContribution monthlySalary a =
     (let cappedSalary = min monthlySalary OA_WAGE_CEILING;
          rates = (if a \<le> 55 then UNDER_55
                   else if a \<le> 60 then AGE_55_60
                   else if a \<le> 65 then AGE_60_65
                   else AGE_65_70);
          totalContribution = cappedSalary * totalRate rates
      in \<lparr>OA = totalContribution * allocOA (allocation rates),
          SA = totalContribution * allocSA (allocation rates),
          MA = totalContribution * allocMA (allocation rates),
          totalBal = totalContribution\<rparr>)"

definition calculateCPFInterest :: "CPFBalances \<Rightarrow> int \<Rightarrow> CPFBalances" where
  "calculateCPFInterest balances a =
     (let oaInterest = OA balances * CPF_RATES_OA;
          saInterest = SA balances * CPF_RATES_SA;
          maInterest = MA balances * CPF_RATES_MA;
          oaForExtra = min (OA balances) 20000;
          remainingFor60K = 60000 - oaForExtra;
          samaForExtra = min (SA balances + MA balances) remainingFor60K;
          saRatio = (if SA balances + MA balances > 0
                     then SA balances / (SA balances + MA balances) else 0.5);
          saExtra = samaForExtra * saRatio;
          maExtra = samaForExtra * (1 - saRatio);
          oaInterest1 = oaInterest + oaForExtra * CPF_RATES_EXTRA_FIRST_60K;
          saInterest1 = saInterest + saExtra * CPF_RATES_EXTRA_FIRST_60K;
          maInterest1 = maInterest + maExtra * CPF_RATES_EXTRA_FIRST_60K;
          oaFor30K = min (OA balances) 30000;
          remainingFor30K = 30000 - oaFor30K;
          samaFor30K = min (SA balances + MA balances) remainingFor30K;
          saExtra30K = samaFor30K * saRatio;
          maExtra30K = samaFor30K * (1 - saRatio);
          oaInterest2 = (if a \<ge> 55
             then oaInterest1 + oaFor30K * CPF_RATES_EXTRA_55_PLUS_FIRST_30K else oaInterest1);
          saInterest2 = (if a \<ge> 55
             then saInterest1 + saExtra30K * CPF_RATES_EXTRA_55_PLUS_FIRST_30K else saInterest1);
          maInterest2 = (if a \<ge> 55
             then maInterest1 + maExtra30K * CPF_RATES_EXTRA_55_PLUS_FIRST_30K else maInterest1)
      in \<lparr>OA = oaInterest2, SA = saInterest2, MA = maInterest2,
          totalBal = oaInterest2 + saInterest2 + maInterest2\<rparr>)"

section \<open>projectCPF\<close>

text \<open>The loop's variables \<open>OA\<close>, \<open>SA\<close>, \<open>MA\<close> and \<open>RA\<close>.\<close>

record CPFState =
  accOA :: real
  accSA :: real
  accMA :: real
  accRA :: real

text \<open>
  The body of the loop of \<open>projectCPF\<close>, in the order of the source: the year's
  contributions, the transfer at age 55, the interest, the record pushed, the growth.
  It returns the record and the variables as the iteration leaves them.
\<close>

definition projectStep :: "real \<Rightarrow> int \<Rightarrow> int \<Rightarrow> nat \<Rightarrow> CPFState \<Rightarrow> CPFProjection \<times> CPFState" where
  "projectStep monthlySalary currentAge stopContributionsAtAge yr st =
     (let a = currentAge + int yr;
          annualContributions =
            (if a < stopContributionsAtAge
             then (let monthlyContrib = calculateCPFContribution monthlySalary a
                   in \<lparr>OA = OA monthlyContrib * 12, SA = SA monthlyContrib * 12,
                       MA = MA monthlyContrib * 12, totalBal = totalBal monthlyContrib * 12\<rparr>)
             else \<lparr>OA = 0, SA = 0, MA = 0, totalBal = 0\<rparr>);
          st1 = (if a = 55 \<and> yr > 0 then st\<lparr>accRA := accSA st, accSA := 0\<rparr> else st);
          balances = \<lparr>OA = accOA st1, SA = accSA st1, MA = accMA st1,
                      totalBal = accOA st1 + accSA st1 + accMA st1\<rparr>;
          intr = calculateCPFInterest balances a;
          rec = \<lparr>projAge = a, projYear = yr,
                 projOA = mathRound (accOA st1), projSA = mathRound (accSA st1),
                 projMA = mathRound (accMA st1), projRA = mathRound (accRA st1),
                 projTotal = mathRound (accOA st1 + accSA st1 + accMA st1 + accRA st1),
                 contributions = mathRound (totalBal annualContributions),
                 interest = mathRound (totalBal intr)\<rparr>;
          st2 = st1\<lparr>accOA := accOA st1 + (OA annualContributions + OA intr),
                    accSA := accSA st1 + (SA annualContributions + SA intr),
                    accMA := accMA st1 + (MA annualContributions + MA intr)\<rparr>;
          st3 = (if a \<ge> 55 then st2\<lparr>accRA := accRA st2 + accRA st2 * CPF_RATES_RA\<rparr> else st2)
      in (rec, st3))"

function projectLoop ::
  "real \<Rightarrow> int \<Rightarrow> nat \<Rightarrow> int \<Rightarrow> nat \<Rightarrow> CPFState \<Rightarrow> CPFProjection list" where
  "projectLoop monthlySalary currentAge yearsToProject stopContributionsAtAge yr st =
     (if yr \<le> yearsToProject then
        (case projectStep monthlySalary currentAge stopContributionsAtAge yr st of
           (rec, st') \<Rightarrow>
             rec # projectLoop monthlySalary currentAge yearsToProject stopContributionsAtAge
                     (yr + 1) st')
      else [])"
  by pat_completeness auto
termination
  by (relation "measure (\<lambda>(monthlySalary, currentAge, yearsToProject, stopContributionsAtAge,
        yr, st). Suc yearsToProject - yr)") auto

declare projectLoop.simps [simp del]

text \<open>\<open>stopContributionsAtAge\<close> has the default 55 in the source; here it is always passed.\<close>

definition projectCPF :: "CPFBalances \<Rightarrow> real \<Rightarrow> int \<Rightarrow> nat \<Rightarrow> int \<Rightarrow> CPFProjection list" where
  "projectCPF currentBalances monthlySalary currentAge yearsToProject stopContributionsAtAge =
     projectLoop monthlySalary currentAge yearsToProject stopContributionsAtAge 0
       \<lparr>accOA = OA currentBalances, accSA = SA currentBalances, accMA = MA currentBalances,
        accRA = 0\<rparr>"

text \<open>
  The loop's variables as iteration \<open>k\<close> finds them: the initial balances, taken through
  the bodies of the iterations \<open>0 .. k - 1\<close>.
\<close>

primrec projectStateAt :: "CPFBalances \<Rightarrow> real \<Rightarrow> int \<Rightarrow> int \<Rightarrow> nat \<Rightarrow> CPFState" where
  "projectStateAt currentBalances monthlySalary currentAge stopContributionsAtAge 0 =
     \<lparr>accOA = OA currentBalances, accSA = SA currentBalances, accMA = MA currentBalances,
      accRA = 0\<rparr>"
| "projectStateAt currentBalances monthlySalary currentAge stopContributionsAtAge (Suc k) =
     snd (projectStep monthlySalary currentAge stopContributionsAtAge k
            (projectStateAt currentBalances monthlySalary currentAge stopContributionsAtAge k))"

section \<open>runHistoricalBacktest\<close>

text \<open>The annual returns and inflation rates of 1928 to 2023, as the source lists them.\<close>

definition HISTORICAL_RETURNS :: "real list" where
  "HISTORICAL_RETURNS =
    [0.4381, - 0.0830, - 0.2512, - 0.4384, - 0.0864, 0.4998, - 0.0119, 0.4674,
     0.3194, - 0.3534, 0.2928, - 0.0110, - 0.1067, - 0.1277, 0.1917, 0.2506,
     0.1903, 0.3582, - 0.0843, 0.0520, 0.0570, 0.1830, 0.3081, 0.2368,
     0.1815, - 0.0121, 0.5256, 0.3260, 0.0744, - 0.1046, 0.4372, 0.1206,
     0.0034, 0.2664, - 0.0881, 0.2261, 0.1642, 0.1240, - 0.0997, 0.2380,
     0.1081, - 0.0824, 0.0356, 0.1422, 0.1876, - 0.1431, - 0.2590, 0.3700,
     0.2383, - 0.0698, 0.0651, 0.1852, 0.3174, - 0.0470, 0.2042, 0.2234,
     0.0615, 0.3124, 0.1849, 0.0581, 0.1654, 0.3148, - 0.0306, 0.3023,
     0.0749, 0.0997, 0.0133, 0.3720, 0.2268, 0.3310, 0.2834, 0.2089,
     - 0.0903, - 0.1185, - 0.2197, 0.2836, 0.1074, 0.0483, 0.1561, 0.0548,
     - 0.3655, 0.2594, 0.1482, 0.0210, 0.1589, 0.3215, 0.1352, 0.0138,
     0.1177, 0.2161, - 0.0423, 0.3121, 0.1840, 0.2847, - 0.1811, 0.2606]"

definition HISTORICAL_INFLATION :: "real list" where
  "HISTORICAL_INFLATION =
    [- 0.0116, 0.0058, - 0.0640, - 0.0932, - 0.1027, 0.0076, 0.0199, 0.0299,
     0.0121, 0.0241, - 0.0178, 0.0000, 0.0096, 0.0993, 0.0929, 0.0316,
     0.0211, 0.0225, 0.1802, 0.0888, 0.0271, - 0.0180, 0.0579, 0.0587,
     0.0088, 0.0062, - 0.0074, 0.0037, 0.0286, 0.0302, 0.0176, 0.0150,
     0.0148, 0.0067, 0.0122, 0.0165, 0.0097, 0.0192, 0.0335, 0.0304,
     0.0472, 0.0611, 0.0549, 0.0336, 0.0341, 0.0880, 0.1220, 0.0701,
     0.0481, 0.0677, 0.0903, 0.1331, 0.1240, 0.0894, 0.0387, 0.0380,
     0.0395, 0.0377, 0.0113, 0.0441, 0.0442, 0.0465, 0.0612, 0.0306,
     0.0290, 0.0275, 0.0267, 0.0254, 0.0332, 0.0170, 0.0161, 0.0268,
     0.0339, 0.0155, 0.0238, 0.0188, 0.0326, 0.0342, 0.0254, 0.0408,
     0.0009, 0.0272, 0.0150, 0.0296, 0.0174, 0.0150, 0.0076, 0.0073,
     0.0207, 0.0211, 0.0191, 0.0231, 0.0123, 0.0700, 0.0650, 0.0340]"

record HistoricalSequence =
  startYear :: int
  endYear :: int
  finalValue :: real
  lowestValue :: real
  lowestYear :: int
  survived :: bool
  yearsDepleted :: "nat option"
  realReturns :: "real list"

record HistoricalBacktestResult =
  sequences :: "HistoricalSequence list"
  backtestSuccessRate :: "real option"
  worstSequence :: "HistoricalSequence option"
  bestSequence :: "HistoricalSequence option"
  medianFinalValue :: "real option"
  averageFinalValue :: "real option"
  percentSurvived30Years :: "real option"

text \<open>The variables of the loop body that replays one start year.\<close>

record ReplayState =
  rPortfolio :: real
  rLowestValue :: real
  rLowestYear :: int
  rYearsDepleted :: "nat option"
  rRealReturns :: "real list"
  rWithdrawal :: real

text \<open>
  The body of the accumulation loop \<open>for (year = 0; year < yearsToRetirement; year++)\<close>
  of a start year.
\<close>

definition accumulationStep :: "PortfolioInputs \<Rightarrow> nat \<Rightarrow> nat \<Rightarrow> ReplayState \<Rightarrow> ReplayState" where
  "accumulationStep inputs startIdx yr st =
     (let returnIdx = startIdx + yr;
          nominalReturn = HISTORICAL_RETURNS ! returnIdx;
          inflation = HISTORICAL_INFLATION ! returnIdx;
          realReturn = (1 + nominalReturn) / (1 + inflation) - 1;
          p = rPortfolio st * (1 + nominalReturn) + monthlyContribution inputs * 12;
          st1 = st\<lparr>rRealReturns := rRealReturns st @ [realReturn], rPortfolio := p\<rparr>
      in if p < rLowestValue st1
         then st1\<lparr>rLowestValue := p, rLowestYear := 1928 + int startIdx + int yr\<rparr>
         else st1)"

function backtestAccumulation :: "PortfolioInputs \<Rightarrow> nat \<Rightarrow> nat \<Rightarrow> ReplayState \<Rightarrow> ReplayState" where
  "backtestAccumulation inputs startIdx yr st =
     (if yr < yearsToRetirement inputs
      then backtestAccumulation inputs startIdx (yr + 1) (accumulationStep inputs startIdx yr st)
      else st)"
  by pat_completeness auto
termination
  by (relation "measure (\<lambda>(inputs, startIdx, yr, st). yearsToRetirement inputs - yr)") auto

declare backtestAccumulation.simps [simp del]

text \<open>
  The body of the retirement loop \<open>for (year = 0; year < retirementYears; year++)\<close>,
  after its test of the index.
\<close>

definition retirementStep :: "PortfolioInputs \<Rightarrow> nat \<Rightarrow> nat \<Rightarrow> ReplayState \<Rightarrow> ReplayState" where
  "retirementStep inputs startIdx yr st =
     (let returnIdx = startIdx + yearsToRetirement inputs + yr;
          nominalReturn = HISTORICAL_RETURNS ! returnIdx;
          inflation = HISTORICAL_INFLATION ! returnIdx;
          realReturn = (1 + nominalReturn) / (1 + inflation) - 1;
          p = rPortfolio st * (1 + nominalReturn) - rWithdrawal st;
          st1 = st\<lparr>rRealReturns := rRealReturns st @ [realReturn], rPortfolio := p,
                    rWithdrawal := rWithdrawal st * (1 + inflation)\<rparr>;
          st2 = (if p < rLowestValue st1 \<and> p > 0
                 then st1\<lparr>rLowestValue := p,
                           rLowestYear := 1928 + int startIdx
                              + int (yearsToRetirement inputs) + int yr\<rparr>
                 else st1)
      in if p \<le> 0 \<and> rYearsDepleted st2 = None
         then st2\<lparr>rYearsDepleted := Some yr, rPortfolio := 0\<rparr>
         else st2)"

text \<open>The retirement loop, left by \<open>break\<close> when the index passes the end of the data.\<close>

function backtestRetirement ::
  "PortfolioInputs \<Rightarrow> nat \<Rightarrow> nat \<Rightarrow> nat \<Rightarrow> ReplayState \<Rightarrow> ReplayState" where
  "backtestRetirement inputs retirementYears startIdx yr st =
     (if yr < retirementYears then
        (if startIdx + yearsToRetirement inputs + yr \<ge> length HISTORICAL_RETURNS then st
         else backtestRetirement inputs retirementYears startIdx (yr + 1)
                (retirementStep inputs startIdx yr st))
      else st)"
  by pat_completeness auto
termination
  by (relation "measure (\<lambda>(inputs, retirementYears, startIdx, yr, st). retirementYears - yr)")
     auto

declare backtestRetirement.simps [simp del]

text \<open>The variables when the retirement loop of a start year begins.\<close>

definition retirementStart :: "PortfolioInputs \<Rightarrow> nat \<Rightarrow> ReplayState" where
  "retirementStart inputs startIdx =
     (let st0 = \<lparr>rPortfolio = currentSavings inputs, rLowestValue = currentSavings inputs,
                 rLowestYear = 1928 + int startIdx, rYearsDepleted = None,
                 rRealReturns = [], rWithdrawal = 0\<rparr>;
          st1 = backtestAccumulation inputs startIdx 0 st0
      in st1\<lparr>rWithdrawal := rPortfolio st1 * withdrawalRate inputs\<rparr>)"

text \<open>The body of the loop over the start years: the sequence it pushes.\<close>

definition backtestSequence :: "PortfolioInputs \<Rightarrow> nat \<Rightarrow> nat \<Rightarrow> HistoricalSequence" where
  "backtestSequence inputs retirementYears startIdx =
     (let totalYearsNeeded = yearsToRetirement inputs + retirementYears;
          st = backtestRetirement inputs retirementYears startIdx 0
                 (retirementStart inputs startIdx)
      in \<lparr>startYear = 1928 + int startIdx,
          endYear = 1928 + int startIdx + int totalYearsNeeded - 1,
          finalValue = max 0 (rPortfolio st),
          lowestValue = max 0 (rLowestValue st),
          lowestYear = rLowestYear st,
          survived = (rPortfolio st > 0),
          yearsDepleted = rYearsDepleted st,
          realReturns = rRealReturns st\<rparr>)"

text \<open>
  \<open>currentAge\<close> is a parameter the source never reads; \<open>retirementYears\<close> has the
  default 30 there and is always passed here. With no sequence the source divides
  0 by 0 and reads empty arrays: those results are \<open>None\<close>.
\<close>

definition runHistoricalBacktest :: "PortfolioInputs \<Rightarrow> int \<Rightarrow> nat \<Rightarrow> HistoricalBacktestResult" where
  "runHistoricalBacktest inputs currentAge retirementYears =
     (let totalYearsNeeded = yearsToRetirement inputs + retirementYears;
          maxStartYear = int (length HISTORICAL_RETURNS) - int totalYearsNeeded;
          seqs = map (backtestSequence inputs retirementYears) [0 ..< nat maxStartYear];
          survivedSequences = filter survived seqs;
          rate = (if seqs = [] then None
                  else Some (real (length survivedSequences) / real (length seqs)));
          sortedByFinal = sort_key finalValue seqs;
          finalValues = sort (map finalValue seqs)
      in \<lparr>sequences = seqs, backtestSuccessRate = rate,
          worstSequence = jsIndex sortedByFinal 0,
          bestSequence = lastOpt sortedByFinal,
          medianFinalValue = jsIndex finalValues (length finalValues div 2),
          averageFinalValue = (if finalValues = [] then None
                               else Some (sum_list finalValues / real (length finalValues))),
          percentSurvived30Years = rate\<rparr>)"

text \<open>
  The variables of the retirement loop of a start year after its first \<open>k\<close> iterations.
\<close>

definition retirementAfter :: "PortfolioInputs \<Rightarrow> nat \<Rightarrow> nat \<Rightarrow> ReplayState" where
  "retirementAfter inputs startIdx k =
     backtestRetirement inputs k startIdx 0 (retirementStart inputs startIdx)"

section \<open>The compounding the specification describes\<close>

text \<open>
  The specification's words for the accumulation phase: for the years 0 to
  \<open>yearsToRetirement\<close> the snapshot of the year is recorded before the growth, then the
  portfolio becomes the portfolio plus the annual contribution plus the portfolio times
  the expected return; year 0 has no contribution, contributions begin from year 1.
  \<open>specSnapshot P r c n\<close> is the snapshot of year \<open>n\<close> for the principal \<open>P\<close>, the
  rate \<open>r\<close> and the annual contribution \<open>c\<close>.
\<close>

fun specSnapshot :: "real \<Rightarrow> real \<Rightarrow> real \<Rightarrow> nat \<Rightarrow> real" where
  "specSnapshot P r c 0 = P"
| "specSnapshot P r c (Suc n) =
     specSnapshot P r c n + (if n = 0 then 0 else c) + specSnapshot P r c n * r"

text \<open>
  The same in closed form: the principal compounds for \<open>n\<close> years, and the contributions
  of the years 1 to \<open>n - 1\<close>, which are those added before the snapshot of year \<open>n\<close>,
  form a geometric series.
\<close>

definition compoundingClosedForm :: "real \<Rightarrow> real \<Rightarrow> real \<Rightarrow> nat \<Rightarrow> real" where
  "compoundingClosedForm P r c n = P * (1 + r) ^ n + c * (((1 + r) ^ (n - 1) - 1) / r)"

text \<open>The inputs of the end-to-end example.\<close>

definition exampleInputs :: PortfolioInputs where
  "exampleInputs = \<lparr>currentSavings = 500000, monthlyContribution = 5000,
     yearsToRetirement = 10, expectedReturn = 0.07, inflationRate = 0.03,
     withdrawalRate = 0.04\<rparr>"

section \<open>A run of two trials\<close>

text \<open>
  Inputs with no accumulation year and a random source whose first draw is one half
  and whose later draws are 0: over one retirement year the two trials end at 100 and 85.
\<close>

definition trialInputs :: PortfolioInputs where
  "trialInputs = \<lparr>currentSavings = 100, monthlyContribution = 0, yearsToRetirement = 0,
     expectedReturn = 0.05, inflationRate = 0, withdrawalRate = 0.04\<rparr>"

definition twoDraws :: "nat \<Rightarrow> real" where
  "twoDraws k = (if k = 0 then 1 / 2 else 0)"

section \<open>Inputs for the historical backtest\<close>

text \<open>A horizon of 70 + 30 years, longer than the data.\<close>

definition longHorizon :: PortfolioInputs where
  "longHorizon = exampleInputs\<lparr>yearsToRetirement := 70\<rparr>"


text \<open>
  Savings of 100 withdrawn at twice their value a year, starting at retirement: the
  portfolio is depleted in the first year, 1928.
\<close>

definition depletingInputs :: PortfolioInputs where
  "depletingInputs = \<lparr>currentSavings = 100, monthlyContribution = 0, yearsToRetirement = 0,
     expectedReturn = 0.07, inflationRate = 0.03, withdrawalRate = 2\<rparr>"

section \<open>Balances for the CPF projection\<close>

text \<open>Balances with 1000 in the special account and nothing else.\<close>

definition saOnly :: CPFBalances where
  "saOnly = \<lparr>OA = 0, SA = 1000, MA = 0, totalBal = 1000\<rparr>"


section \<open>calculateDrawdown: unfolding the loop\<close>

lemma drawdownLoop_stop:
  "\<not> yr \<le> n \<Longrightarrow> drawdownLoop expRet inflRate n startAge yr pv curWd cumInfl = []"
  by (subst drawdownLoop.simps) simp

lemma drawdownLoop_depleted:
  assumes "yr \<le> n" and "pv + pv * expRet - (if yr = 0 then 0 else curWd) \<le> 0"
  shows "drawdownLoop expRet inflRate n startAge yr pv curWd cumInfl =
    \<lparr>year = yr, age = startAge + int yr, portfolioValue = max 0 pv,
      contribution = 0, returns = (if pv > 0 then pv * expRet else 0),
      withdrawal = (if yr = 0 then 0 else curWd),
      inflationAdjustedValue = max 0 pv / (cumInfl * (1 + inflRate))\<rparr>
    # map (depletedRecord startAge) [yr + 1 ..< n + 1]"
  using assms by (subst drawdownLoop.simps) (simp add: Let_def)

lemma drawdownLoop_continue:
  assumes "yr \<le> n" and "\<not> pv + pv * expRet - (if yr = 0 then 0 else curWd) \<le> 0"
  shows "drawdownLoop expRet inflRate n startAge yr pv curWd cumInfl =
    \<lparr>year = yr, age = startAge + int yr, portfolioValue = max 0 pv,
      contribution = 0, returns = (if pv > 0 then pv * expRet else 0),
      withdrawal = (if yr = 0 then 0 else curWd),
      inflationAdjustedValue = max 0 pv / (cumInfl * (1 + inflRate))\<rparr>
    # drawdownLoop expRet inflRate n startAge (yr + 1)
        (pv + pv * expRet - (if yr = 0 then 0 else curWd)) (curWd * (1 + inflRate))
        (cumInfl * (1 + inflRate))"
  using assms by (subst drawdownLoop.simps) (simp add: Let_def)

lemma depleted_tail_nth:
  assumes "yr + 1 + j < n + 1"
  shows "map (depletedRecord startAge) [yr + 1 ..< n + 1] ! j = depletedRecord startAge (yr + 1 + j)"
  using assms by (simp del: upt_Suc)

text \<open>One record is pushed for each of the years \<open>yr .. n\<close>, depleted or not.\<close>

lemma drawdownLoop_length:
  "length (drawdownLoop expRet inflRate n startAge yr pv curWd cumInfl) = Suc n - yr"
proof (induction "Suc n - yr" arbitrary: yr pv curWd cumInfl)
  case 0
  then have "\<not> yr \<le> n" by simp
  then show ?case using 0 by (simp add: drawdownLoop_stop)
next
  case (Suc m)
  then have le: "yr \<le> n" and m: "m = Suc n - (yr + 1)" by simp_all
  show ?case
  proof (cases "pv + pv * expRet - (if yr = 0 then 0 else curWd) \<le> 0")
    case True
    show ?thesis unfolding drawdownLoop_depleted [OF le True] using le by auto
  next
    case False
    show ?thesis unfolding drawdownLoop_continue [OF le False]
      using le Suc.hyps(1) [OF m] by simp
  qed
qed

lemma drawdownLoop_nonneg:
  "r \<in> set (drawdownLoop expRet inflRate n startAge yr pv curWd cumInfl)
   \<Longrightarrow> 0 \<le> portfolioValue r"
proof (induction "Suc n - yr" arbitrary: yr pv curWd cumInfl)
  case 0
  then have "\<not> yr \<le> n" by simp
  then show ?case using 0 by (simp add: drawdownLoop_stop)
next
  case (Suc m)
  then have le: "yr \<le> n" and m: "m = Suc n - (yr + 1)" by simp_all
  show ?case
  proof (cases "pv + pv * expRet - (if yr = 0 then 0 else curWd) \<le> 0")
    case True
    show ?thesis using Suc.prems unfolding drawdownLoop_depleted [OF le True]
      by (auto simp: depletedRecord_def)
  next
    case False
    show ?thesis using Suc.prems Suc.hyps(1) [OF m]
      unfolding drawdownLoop_continue [OF le False] by auto
  qed
qed

text \<open>
  While the loop runs from the second year on, its portfolio is positive; so a record
  with the value 0 is a depleted one, and so is every record after it.
\<close>

lemma drawdownLoop_zero_after:
  assumes "0 < pv"
    and "i < j" and "j < length (drawdownLoop expRet inflRate n startAge yr pv curWd cumInfl)"
    and "portfolioValue (drawdownLoop expRet inflRate n startAge yr pv curWd cumInfl ! i) = 0"
  shows "drawdownLoop expRet inflRate n startAge yr pv curWd cumInfl ! j
         = depletedRecord startAge (yr + j)"
  using assms
proof (induction "Suc n - yr" arbitrary: yr pv curWd cumInfl i j)
  case 0
  then have "\<not> yr \<le> n" by simp
  then show ?case using 0 by (simp add: drawdownLoop_stop)
next
  case (Suc m)
  then have le: "yr \<le> n" and m: "m = Suc n - (yr + 1)" by simp_all
  obtain j' where j: "j = Suc j'" using Suc.prems(2) by (cases j) auto
  show ?case
  proof (cases "pv + pv * expRet - (if yr = 0 then 0 else curWd) \<le> 0")
    case True
    have "yr + 1 + j' < n + 1"
      using Suc.prems(3) unfolding drawdownLoop_depleted [OF le True] j
      by (simp del: upt_Suc)
    from depleted_tail_nth [OF this] show ?thesis
      unfolding drawdownLoop_depleted [OF le True] j by simp
  next
    case False
    from Suc.prems(1,4) obtain i' where i: "i = Suc i'"
      unfolding drawdownLoop_continue [OF le False] by (cases i) auto
    have pos: "0 < pv + pv * expRet - (if yr = 0 then 0 else curWd)" using False by simp
    show ?thesis using Suc.prems(2,3,4) Suc.hyps(1) [OF m pos, of i' j']
      unfolding drawdownLoop_continue [OF le False] i j by simp
  qed
qed

text \<open>
  From the second year on: a record of the loop proper carries the pending withdrawal,
  which has grown by the inflation factor once for every year since; a depleted record
  carries 0.
\<close>

lemma drawdownLoop_withdrawal:
  assumes "1 \<le> yr" and "0 < pv"
    and "j < length (drawdownLoop expRet inflRate n startAge yr pv curWd cumInfl)"
  shows "withdrawal (drawdownLoop expRet inflRate n startAge yr pv curWd cumInfl ! j) =
    (if 0 < portfolioValue (drawdownLoop expRet inflRate n startAge yr pv curWd cumInfl ! j)
     then curWd * (1 + inflRate) ^ j else 0)"
  using assms
proof (induction "Suc n - yr" arbitrary: yr pv curWd cumInfl j)
  case 0
  then have "\<not> yr \<le> n" by simp
  then show ?case using 0 by (simp add: drawdownLoop_stop)
next
  case (Suc m)
  then have le: "yr \<le> n" and m: "m = Suc n - (yr + 1)" by simp_all
  show ?case
  proof (cases "pv + pv * expRet - (if yr = 0 then 0 else curWd) \<le> 0")
    case True
    show ?thesis using Suc.prems unfolding drawdownLoop_depleted [OF le True]
      by (cases j) (simp_all add: depletedRecord_def)
  next
    case False
    have pos: "0 < pv + pv * expRet - (if yr = 0 then 0 else curWd)" using False by simp
    show ?thesis
    proof (cases j)
      case 0
      then show ?thesis using Suc.prems unfolding drawdownLoop_continue [OF le False] by simp
    next
      case j: (Suc j')
      let ?rest = "drawdownLoop expRet inflRate n startAge (yr + 1)
        (pv + pv * expRet - (if yr = 0 then 0 else curWd)) (curWd * (1 + inflRate))
        (cumInfl * (1 + inflRate))"
      have jl: "j' < length ?rest"
        using Suc.prems(3) unfolding drawdownLoop_continue [OF le False] j by simp
      have "withdrawal (?rest ! j') =
        (if 0 < portfolioValue (?rest ! j')
         then curWd * (1 + inflRate) * (1 + inflRate) ^ j' else 0)"
        by (rule Suc.hyps(1) [OF m _ pos jl]) simp
      then show ?thesis unfolding drawdownLoop_continue [OF le False] j
        by (simp add: mult.assoc)
    qed
  qed
qed

section \<open>calculateDrawdown: depletion\<close>

text \<open>
  Claim C2. For every call of \<open>calculateDrawdown\<close> with a non-negative starting
  portfolio, annual withdrawal, expected return and inflation rate, with the result
  \<open>rs\<close>: no record carries a negative \<open>portfolioValue\<close> (the record at any index \<open>k\<close>
  of the result, whether the portfolio is ever depleted or not); and once the record
  of a year \<open>i\<close> has the \<open>portfolioValue\<close> 0, the record of every later year \<open>j\<close> is
  all-zero: its \<open>portfolioValue\<close>, \<open>contribution\<close>, \<open>returns\<close>, \<open>withdrawal\<close> and
  \<open>inflationAdjustedValue\<close> are 0.
\<close>

theorem drawdown_depletion_monotone:
  assumes "0 \<le> startingPortfolio" and "0 \<le> annualWd" and "0 \<le> expRet" and "0 \<le> inflRate"
    and "rs = calculateDrawdown startingPortfolio annualWd expRet inflRate n startAge"
  shows "(k < length rs \<longrightarrow> 0 \<le> portfolioValue (rs ! k))
       \<and> (i < j \<and> j < length rs \<and> portfolioValue (rs ! i) = 0 \<longrightarrow>
            portfolioValue (rs ! j) = 0 \<and> contribution (rs ! j) = 0 \<and> returns (rs ! j) = 0
          \<and> withdrawal (rs ! j) = 0 \<and> inflationAdjustedValue (rs ! j) = 0)"
proof -
  have nonneg: "0 \<le> portfolioValue (rs ! k)" if "k < length rs"
    using that drawdownLoop_nonneg nth_mem unfolding assms(5) calculateDrawdown_def
    by blast
  have zero: "rs ! j = depletedRecord startAge j"
    if ij: "i < j" and jl: "j < length rs" and z: "portfolioValue (rs ! i) = 0"
  proof (cases "0 < startingPortfolio")
    case True
    from drawdownLoop_zero_after [OF True ij] jl z show ?thesis
      unfolding assms(5) calculateDrawdown_def by simp
  next
    case False
    with assms(1) have sp: "startingPortfolio = 0" by simp
    obtain j' where j: "j = Suc j'" using ij by (cases j) auto
    have dep: "startingPortfolio + startingPortfolio * expRet
                 - (if (0::nat) = 0 then 0 else annualWd) \<le> 0"
      using sp by simp
    have "0 + 1 + j' < n + 1"
      using jl unfolding assms(5) calculateDrawdown_def j
        drawdownLoop_depleted [OF le0 dep] by (simp del: upt_Suc)
    from depleted_tail_nth [OF this] show ?thesis
      unfolding assms(5) calculateDrawdown_def j drawdownLoop_depleted [OF le0 dep] by simp
  qed
  have fields: "portfolioValue (rs ! j) = 0 \<and> contribution (rs ! j) = 0 \<and> returns (rs ! j) = 0
          \<and> withdrawal (rs ! j) = 0 \<and> inflationAdjustedValue (rs ! j) = 0"
    if "i < j \<and> j < length rs \<and> portfolioValue (rs ! i) = 0"
  proof -
    from that have "rs ! j = depletedRecord startAge j" by (intro zero) simp_all
    then show ?thesis by (simp add: depletedRecord_def)
  qed
  show ?thesis using nonneg fields by blast
qed

text \<open>
  A portfolio of 100 with a withdrawal of 60, no return and no inflation: the values
  recorded are 100, 100, 40, 0, 0. A portfolio of 1000 with no withdrawal is never
  depleted: no record has the value 0, and none is negative.
\<close>

theorem drawdown_depletion_monotone_witness:
  "(0::real) \<le> 100 \<and> (0::real) \<le> 60 \<and> (0::real) \<le> 0 \<and> (0::real) \<le> 1000
    \<and> (2::nat) < length (calculateDrawdown 100 60 0 0 4 65)
    \<and> (3::nat) < 4 \<and> 4 < length (calculateDrawdown 100 60 0 0 4 65)
    \<and> portfolioValue (calculateDrawdown 100 60 0 0 4 65 ! 3) = 0
    \<and> 0 \<le> portfolioValue (calculateDrawdown 100 60 0 0 4 65 ! 2)
    \<and> portfolioValue (calculateDrawdown 100 60 0 0 4 65 ! 4) = 0
    \<and> contribution (calculateDrawdown 100 60 0 0 4 65 ! 4) = 0
    \<and> returns (calculateDrawdown 100 60 0 0 4 65 ! 4) = 0
    \<and> withdrawal (calculateDrawdown 100 60 0 0 4 65 ! 4) = 0
    \<and> inflationAdjustedValue (calculateDrawdown 100 60 0 0 4 65 ! 4) = 0
    \<and> (3::nat) < length (calculateDrawdown 1000 0 0 0 3 65)
    \<and> 0 \<le> portfolioValue (calculateDrawdown 1000 0 0 0 3 65 ! 3)"
proof -
  have len: "length (calculateDrawdown 100 60 0 0 4 65) = 5"
    by (simp add: calculateDrawdown_def drawdownLoop_length)
  have len': "length (calculateDrawdown 1000 0 0 0 3 65) = 4"
    by (simp add: calculateDrawdown_def drawdownLoop_length)
  have z: "portfolioValue (calculateDrawdown 100 60 0 0 4 65 ! 3) = 0"
    by (simp add: calculateDrawdown_def drawdownLoop_depleted drawdownLoop_continue
          depletedRecord_def upt_conv_Cons)
  have h: "(0::real) \<le> 100" "(0::real) \<le> 60" "(0::real) \<le> 0" "(0::real) \<le> 1000"
    by simp_all
  have l: "(2::nat) < length (calculateDrawdown 100 60 0 0 4 65)"
    "(3::nat) < 4" "(4::nat) < length (calculateDrawdown 100 60 0 0 4 65)"
    using len by simp_all
  have l': "(3::nat) < length (calculateDrawdown 1000 0 0 0 3 65)" using len' by simp
  from drawdown_depletion_monotone [where k = 2 and i = 3 and j = 4,
      OF h(1) h(2) h(3) h(3) refl] l z
  have a: "0 \<le> portfolioValue (calculateDrawdown 100 60 0 0 4 65 ! 2)"
    "portfolioValue (calculateDrawdown 100 60 0 0 4 65 ! 4) = 0
     \<and> contribution (calculateDrawdown 100 60 0 0 4 65 ! 4) = 0
     \<and> returns (calculateDrawdown 100 60 0 0 4 65 ! 4) = 0
     \<and> withdrawal (calculateDrawdown 100 60 0 0 4 65 ! 4) = 0
     \<and> inflationAdjustedValue (calculateDrawdown 100 60 0 0 4 65 ! 4) = 0"
    by blast+
  from drawdown_depletion_monotone [where k = 3, OF h(4) h(3) h(3) h(3) refl] l'
  have b: "0 \<le> portfolioValue (calculateDrawdown 1000 0 0 0 3 65 ! 3)" by blast
  show ?thesis using h l z a b l' by blast
qed

section \<open>calculateDrawdown: the withdrawal of a year\<close>

text \<open>
  Year 0 records the withdrawal 0 and multiplies the pending withdrawal by the inflation
  factor all the same. A later record of the loop proper, which has a positive
  \<open>portfolioValue\<close>, carries the pending withdrawal; a depleted record carries 0.
\<close>

lemma drawdown_withdrawal_record:
  assumes "1 \<le> n" and "n \<le> nYears"
    and "rs = calculateDrawdown startingPortfolio annualWd expRet inflRate nYears startAge"
  shows "withdrawal (rs ! 0) = 0
    \<and> withdrawal (rs ! n) =
        (if 0 < portfolioValue (rs ! n) then annualWd * (1 + inflRate) ^ n else 0)"
proof -
  obtain n' where n: "n = Suc n'" using assms(1) by (cases n) auto
  let ?pv' = "startingPortfolio + startingPortfolio * expRet
                - (if (0::nat) = 0 then 0 else annualWd)"
  show ?thesis
  proof (cases "?pv' \<le> 0")
    case True
    have "0 + 1 + n' < nYears + 1" using assms(2) n by simp
    note f = depleted_tail_nth [OF this]
    show ?thesis
      unfolding assms(3) calculateDrawdown_def n drawdownLoop_depleted [OF le0 True]
        nth_Cons_Suc nth_Cons_0 f
      by (simp add: depletedRecord_def)
  next
    case False
    let ?rest = "drawdownLoop expRet inflRate nYears startAge (0 + 1) ?pv'
        (annualWd * (1 + inflRate)) (1 * (1 + inflRate))"
    have pos: "0 < ?pv'" using False by simp
    have nl: "n' < length ?rest" using assms(2) n by (simp add: drawdownLoop_length)
    have "withdrawal (?rest ! n') =
      (if 0 < portfolioValue (?rest ! n')
       then annualWd * (1 + inflRate) * (1 + inflRate) ^ n' else 0)"
      by (rule drawdownLoop_withdrawal [OF _ pos nl]) simp
    then show ?thesis
      unfolding assms(3) calculateDrawdown_def n drawdownLoop_continue [OF le0 False]
      by (simp add: mult.assoc)
  qed
qed


text \<open>
  The records of the loop proper come first: before a record with a positive value,
  every record from year 1 on has a positive value.
\<close>

lemma drawdown_positive_prefix:
  assumes "1 \<le> n" and "n \<le> d" and "d \<le> nYears"
    and "rs = calculateDrawdown startingPortfolio annualWd expRet inflRate nYears startAge"
    and "0 < portfolioValue (rs ! d)"
  shows "0 < portfolioValue (rs ! n)"
proof (rule ccontr)
  assume neg: "\<not> 0 < portfolioValue (rs ! n)"
  have len: "length rs = Suc nYears"
    unfolding assms(4) calculateDrawdown_def by (simp add: drawdownLoop_length)
  have "n < length rs" using assms(2,3) len by simp
  then have "0 \<le> portfolioValue (rs ! n)"
    using drawdownLoop_nonneg nth_mem unfolding assms(4) calculateDrawdown_def by blast
  with neg have z: "portfolioValue (rs ! n) = 0" by simp
  have nd: "n < d" using z assms(2,5) by (cases "n = d") auto
  obtain n' where n: "n = Suc n'" using assms(1) by (cases n) auto
  obtain d' where d: "d = Suc d'" using nd by (cases d) auto
  let ?pv' = "startingPortfolio + startingPortfolio * expRet
                - (if (0::nat) = 0 then 0 else annualWd)"
  show False
  proof (cases "?pv' \<le> 0")
    case True
    have "0 + 1 + d' < nYears + 1" using assms(3) d by simp
    note f = depleted_tail_nth [OF this]
    have "portfolioValue (rs ! d) = 0"
      unfolding assms(4) calculateDrawdown_def d drawdownLoop_depleted [OF le0 True]
        nth_Cons_Suc f by (simp add: depletedRecord_def)
    with assms(5) show False by simp
  next
    case False
    let ?rest = "drawdownLoop expRet inflRate nYears startAge (0 + 1) ?pv'
        (annualWd * (1 + inflRate)) (1 * (1 + inflRate))"
    have pos: "0 < ?pv'" using False by simp
    have rn: "rs ! n = ?rest ! n'" and rd: "rs ! d = ?rest ! d'"
      unfolding assms(4) calculateDrawdown_def n d drawdownLoop_continue [OF le0 False]
      by simp_all
    have l: "d' < length ?rest" using assms(3) d by (simp add: drawdownLoop_length)
    have lt: "n' < d'" using nd n d by simp
    have zz: "portfolioValue (?rest ! n') = 0" using z unfolding rn .
    from drawdownLoop_zero_after [OF pos lt l zz]
    have "portfolioValue (rs ! d) = 0" unfolding rd by (simp add: depletedRecord_def)
    with assms(5) show False by simp
  qed
qed

text \<open>
  Claim C9, as stated, fails in its last clause, that the first withdrawal is never the
  raw \<open>annualWithdrawal\<close>: the claim allows an inflation rate of 0, and then the factor is
  1. A portfolio of 1000 with a withdrawal of 600, no return and no inflation records the
  withdrawal 0 in year 0 and 600, the raw \<open>annualWithdrawal\<close>, in year 1.
\<close>

theorem drawdown_withdrawal_counterexample:
  "(0::real) \<le> 0 \<and> (1::nat) \<le> 3
   \<and> 0 < portfolioValue (calculateDrawdown 1000 600 0 0 3 65 ! 1)
   \<and> withdrawal (calculateDrawdown 1000 600 0 0 3 65 ! 0) = 0
   \<and> withdrawal (calculateDrawdown 1000 600 0 0 3 65 ! 1) = 600"
  by (simp add: calculateDrawdown_def drawdownLoop_continue)

text \<open>
  Claim C9, amended. The pending withdrawal is multiplied by the inflation factor already
  at the end of year 0, whose own record carries the withdrawal 0. Let \<open>d\<close> be a year
  whose record is one of the loop proper, with a positive \<open>portfolioValue\<close>; the last
  such year is the year of the depletion, the one whose update takes the portfolio to 0
  or below after its record is pushed. Then for every year \<open>n\<close> from 1 up to \<open>d\<close> the
  record of year \<open>n\<close> carries the withdrawal
  \<open>annualWithdrawal * (1 + inflationRate) ^ n\<close>. So the first withdrawal recorded, that of
  year 1, is \<open>annualWithdrawal * (1 + inflationRate)\<close>: it is the raw
  \<open>annualWithdrawal\<close> exactly when the inflation rate or the withdrawal is 0, and with a
  positive withdrawal and a positive inflation rate every recorded withdrawal of these
  years is greater than the raw \<open>annualWithdrawal\<close>. The depleted records pushed for the
  years after the depletion, whose value is 0, carry the withdrawal 0. No sign
  condition on the inflation rate is needed for the formula.
\<close>

theorem drawdown_withdrawal_inflated:
  assumes "1 \<le> n" and "n \<le> d" and "d \<le> nYears"
    and "rs = calculateDrawdown startingPortfolio annualWd expRet inflRate nYears startAge"
    and "0 < portfolioValue (rs ! d)"
  shows "withdrawal (rs ! 0) = 0
    \<and> withdrawal (rs ! n) = annualWd * (1 + inflRate) ^ n
    \<and> (\<forall>m. 1 \<le> m \<and> m \<le> nYears \<and> portfolioValue (rs ! m) = 0 \<longrightarrow> withdrawal (rs ! m) = 0)
    \<and> withdrawal (rs ! 1) = annualWd * (1 + inflRate)
    \<and> ((withdrawal (rs ! 1) = annualWd) = (annualWd = 0 \<or> inflRate = 0))
    \<and> (0 < annualWd \<and> 0 < inflRate \<longrightarrow> annualWd < withdrawal (rs ! n))"
proof -
  have le: "n \<le> nYears" using assms(2,3) by simp
  have pos: "0 < portfolioValue (rs ! n)"
    by (rule drawdown_positive_prefix [OF assms])
  from drawdown_withdrawal_record [OF assms(1) le assms(4)] pos
  have a: "withdrawal (rs ! 0) = 0" and b: "withdrawal (rs ! n) = annualWd * (1 + inflRate) ^ n"
    by simp_all
  have c: "\<forall>m. 1 \<le> m \<and> m \<le> nYears \<and> portfolioValue (rs ! m) = 0 \<longrightarrow> withdrawal (rs ! m) = 0"
  proof (intro allI impI)
    fix m assume m: "1 \<le> m \<and> m \<le> nYears \<and> portfolioValue (rs ! m) = 0"
    then have m1: "1 \<le> m" and m2: "m \<le> nYears" and m3: "portfolioValue (rs ! m) = 0"
      by simp_all
    from drawdown_withdrawal_record [OF m1 m2 assms(4)] m3
    show "withdrawal (rs ! m) = 0" by simp
  qed
  have one: "(1::nat) \<le> 1" and oned: "1 \<le> d" and onen: "1 \<le> nYears"
    using assms(1,2,3) by simp_all
  have pos1: "0 < portfolioValue (rs ! 1)"
    by (rule drawdown_positive_prefix [OF one oned assms(3,4,5)])
  from drawdown_withdrawal_record [OF one onen assms(4)] pos1
  have f: "withdrawal (rs ! 1) = annualWd * (1 + inflRate)" by simp
  have g: "(withdrawal (rs ! 1) = annualWd) = (annualWd = 0 \<or> inflRate = 0)"
    unfolding f by (auto simp add: algebra_simps)
  have h: "annualWd < withdrawal (rs ! n)" if "0 < annualWd \<and> 0 < inflRate"
  proof -
    have "0 < n" using assms(1) by simp
    moreover have "1 < 1 + inflRate" using that by simp
    ultimately have "1 < (1 + inflRate) ^ n" by (simp add: one_less_power)
    then have "annualWd * 1 < annualWd * (1 + inflRate) ^ n"
      using that by (simp only: mult_less_cancel_left_pos)
    then show ?thesis unfolding b by simp
  qed
  show ?thesis
  proof (intro conjI)
    show "withdrawal (rs ! 0) = 0" by (rule a)
    show "withdrawal (rs ! n) = annualWd * (1 + inflRate) ^ n" by (rule b)
    show "\<forall>m. 1 \<le> m \<and> m \<le> nYears \<and> portfolioValue (rs ! m) = 0 \<longrightarrow> withdrawal (rs ! m) = 0"
      by (rule c)
    show "withdrawal (rs ! 1) = annualWd * (1 + inflRate)" by (rule f)
    show "(withdrawal (rs ! 1) = annualWd) = (annualWd = 0 \<or> inflRate = 0)" by (rule g)
    show "0 < annualWd \<and> 0 < inflRate \<longrightarrow> annualWd < withdrawal (rs ! n)"
      using h by blast
  qed
qed

text \<open>
  A portfolio of 1000, a withdrawal of 100 and an inflation rate of one half, over three
  years: the withdrawals recorded are 0, 150, 225, and the record of year 3 still has a
  positive value. With a withdrawal of 700 and no inflation the portfolio is depleted in
  year 2, and the record of year 3 carries the value 0 and the withdrawal 0.
\<close>

theorem drawdown_withdrawal_inflated_witness:
  "(1::nat) \<le> 2 \<and> (2::nat) \<le> 3 \<and> (3::nat) \<le> 3
   \<and> 0 < portfolioValue (calculateDrawdown 1000 100 0 (1/2) 3 65 ! 3)
   \<and> (0::real) < 100 \<and> (0::real) < 1/2
   \<and> withdrawal (calculateDrawdown 1000 100 0 (1/2) 3 65 ! 0) = 0
   \<and> withdrawal (calculateDrawdown 1000 100 0 (1/2) 3 65 ! 1) = 150
   \<and> withdrawal (calculateDrawdown 1000 100 0 (1/2) 3 65 ! 2) = 100 * (1 + 1/2) ^ 2
   \<and> 100 < withdrawal (calculateDrawdown 1000 100 0 (1/2) 3 65 ! 2)
   \<and> 0 < portfolioValue (calculateDrawdown 1000 700 0 0 3 65 ! 2)
   \<and> portfolioValue (calculateDrawdown 1000 700 0 0 3 65 ! 3) = 0
   \<and> withdrawal (calculateDrawdown 1000 700 0 0 3 65 ! 2) = 700
   \<and> withdrawal (calculateDrawdown 1000 700 0 0 3 65 ! 3) = 0"
proof -
  have p: "0 < portfolioValue (calculateDrawdown 1000 100 0 (1/2) 3 65 ! 3)"
    by (simp add: calculateDrawdown_def drawdownLoop_continue)
  have q: "0 < portfolioValue (calculateDrawdown 1000 700 0 0 3 65 ! 2)"
    by (simp add: calculateDrawdown_def drawdownLoop_continue drawdownLoop_depleted)
  have z: "portfolioValue (calculateDrawdown 1000 700 0 0 3 65 ! 3) = 0"
    by (simp add: calculateDrawdown_def drawdownLoop_continue drawdownLoop_depleted
          depletedRecord_def upt_conv_Cons)
  have h: "(1::nat) \<le> 2" "(2::nat) \<le> 3" "(3::nat) \<le> 3" "(2::nat) \<le> 2" "(1::nat) \<le> 3"
    by simp_all
  have r: "(0::real) < 100 \<and> (0::real) < 1/2" by simp
  from drawdown_withdrawal_inflated [OF h(1,2,3) refl p] r
  have a: "withdrawal (calculateDrawdown 1000 100 0 (1/2) 3 65 ! 0) = 0"
    "withdrawal (calculateDrawdown 1000 100 0 (1/2) 3 65 ! 2) = 100 * (1 + 1/2) ^ 2"
    "withdrawal (calculateDrawdown 1000 100 0 (1/2) 3 65 ! 1) = 100 * (1 + 1/2)"
    "100 < withdrawal (calculateDrawdown 1000 100 0 (1/2) 3 65 ! 2)"
    by blast+
  from a(3) have a3: "withdrawal (calculateDrawdown 1000 100 0 (1/2) 3 65 ! 1) = 150" by simp
  from drawdown_withdrawal_inflated [OF h(1,4,2) refl q]
  have b: "withdrawal (calculateDrawdown 1000 700 0 0 3 65 ! 2) = 700 * (1 + 0) ^ 2"
    and c: "\<forall>m. 1 \<le> m \<and> m \<le> 3 \<and> portfolioValue (calculateDrawdown 1000 700 0 0 3 65 ! m) = 0
              \<longrightarrow> withdrawal (calculateDrawdown 1000 700 0 0 3 65 ! m) = 0"
    by blast+
  from c h(5,3) z have c': "withdrawal (calculateDrawdown 1000 700 0 0 3 65 ! 3) = 0" by blast
  from b have b': "withdrawal (calculateDrawdown 1000 700 0 0 3 65 ! 2) = 700" by simp
  show ?thesis using h p q z r a(1,2,4) a3 b' c' by blast
qed

section \<open>calculateAccumulation: the value at retirement\<close>

lemma accumulationLoop_stop:
  "\<not> yr \<le> yearsToRetirement inputs \<Longrightarrow> accumulationLoop inputs currentAge yr pv cumInfl = []"
  by (subst accumulationLoop.simps) simp

lemma accumulationLoop_step:
  assumes "yr \<le> yearsToRetirement inputs"
  shows "accumulationLoop inputs currentAge yr pv cumInfl =
    \<lparr>year = yr, age = currentAge + int yr, portfolioValue = pv,
      contribution = (if yr = 0 then 0 else monthlyContribution inputs * 12),
      returns = pv * expectedReturn inputs, withdrawal = 0,
      inflationAdjustedValue = pv / (cumInfl * (1 + inflationRate inputs))\<rparr>
    # accumulationLoop inputs currentAge (yr + 1)
        (pv + (if yr = 0 then 0 else monthlyContribution inputs * 12)
            + pv * expectedReturn inputs)
        (cumInfl * (1 + inflationRate inputs))"
  using assms by (subst accumulationLoop.simps) (simp add: Let_def)

lemma accumulationLoop_length:
  "length (accumulationLoop inputs currentAge yr pv cumInfl)
   = Suc (yearsToRetirement inputs) - yr"
proof (induction "Suc (yearsToRetirement inputs) - yr" arbitrary: yr pv cumInfl)
  case 0
  then have "\<not> yr \<le> yearsToRetirement inputs" by simp
  then show ?case using 0 by (simp add: accumulationLoop_stop)
next
  case (Suc m)
  then have le: "yr \<le> yearsToRetirement inputs"
    and m: "m = Suc (yearsToRetirement inputs) - (yr + 1)" by simp_all
  show ?case unfolding accumulationLoop_step [OF le] using le Suc.hyps(1) [OF m] by simp
qed

text \<open>
  From year 1 on, every iteration grows the portfolio by the return and adds a year of
  contributions after the record is pushed; the last record is the one of the year
  \<open>yearsToRetirement\<close>.
\<close>

lemma accumulationLoop_last:
  assumes "1 \<le> yr" and "yr \<le> yearsToRetirement inputs"
  shows "portfolioValue (last (accumulationLoop inputs currentAge yr pv cumInfl)) =
    pv * (1 + expectedReturn inputs) ^ (yearsToRetirement inputs - yr)
    + monthlyContribution inputs * 12
      * (\<Sum>k < yearsToRetirement inputs - yr. (1 + expectedReturn inputs) ^ k)"
  using assms
proof (induction "yearsToRetirement inputs - yr" arbitrary: yr pv cumInfl)
  case 0
  then have eq: "yr = yearsToRetirement inputs" by simp
  have stop: "\<not> yr + 1 \<le> yearsToRetirement inputs" using eq by simp
  show ?case unfolding accumulationLoop_step [OF "0.prems"(2)] accumulationLoop_stop [OF stop]
    using eq by simp
next
  case (Suc m)
  then have le: "yr + 1 \<le> yearsToRetirement inputs"
    and m: "m = yearsToRetirement inputs - (yr + 1)"
    and d: "yearsToRetirement inputs - yr = Suc m" by simp_all
  have yr0: "yr \<noteq> 0" using Suc.prems(1) by simp
  let ?pv' = "pv + (if yr = 0 then 0 else monthlyContribution inputs * 12)
                 + pv * expectedReturn inputs"
  let ?rest = "accumulationLoop inputs currentAge (yr + 1) ?pv'
                 (cumInfl * (1 + inflationRate inputs))"
  have ne: "?rest \<noteq> []"
    using le accumulationLoop_length [of inputs currentAge "yr + 1" ?pv'
      "cumInfl * (1 + inflationRate inputs)"] by auto
  have IH: "portfolioValue (last ?rest) =
      ?pv' * (1 + expectedReturn inputs) ^ m
      + monthlyContribution inputs * 12 * (\<Sum>k < m. (1 + expectedReturn inputs) ^ k)"
    using Suc.hyps(1) [OF m _ le, of ?pv' "cumInfl * (1 + inflationRate inputs)"] m by simp
  have "portfolioValue (last (accumulationLoop inputs currentAge yr pv cumInfl))
        = portfolioValue (last ?rest)"
    unfolding accumulationLoop_step [OF Suc.prems(2)] using ne by simp
  also have "\<dots> = pv * (1 + expectedReturn inputs) ^ Suc m
      + monthlyContribution inputs * 12 * (\<Sum>k < Suc m. (1 + expectedReturn inputs) ^ k)"
    unfolding IH using yr0 by (simp add: algebra_simps)
  finally show ?case unfolding d .
qed

text \<open>
  The portfolio at retirement in closed form: the savings grow through all
  \<open>yearsToRetirement\<close> years; a year of contributions is added at the end of each of the
  years \<open>1 .. yearsToRetirement - 1\<close> only, since the record of the last year is pushed
  before that year's contribution is added.
\<close>

lemma accumulation_closed_form:
  "portfolioValue (last (calculateAccumulation inputs currentAge)) =
    currentSavings inputs * (1 + expectedReturn inputs) ^ yearsToRetirement inputs
    + monthlyContribution inputs * 12
      * (\<Sum>k < yearsToRetirement inputs - 1. (1 + expectedReturn inputs) ^ k)"
proof (cases "yearsToRetirement inputs")
  case 0
  then have stop: "\<not> 0 + 1 \<le> yearsToRetirement inputs" by simp
  show ?thesis
    unfolding calculateAccumulation_def accumulationLoop_step [OF le0]
      accumulationLoop_stop [OF stop]
    using 0 by simp
next
  case (Suc m)
  then have le: "0 + 1 \<le> yearsToRetirement inputs" by simp
  let ?pv' = "currentSavings inputs + (if (0::nat) = 0 then 0 else monthlyContribution inputs * 12)
                 + currentSavings inputs * expectedReturn inputs"
  let ?rest = "accumulationLoop inputs currentAge (0 + 1) ?pv' (1 * (1 + inflationRate inputs))"
  have ne: "?rest \<noteq> []"
    using le accumulationLoop_length [of inputs currentAge "0 + 1" ?pv'
      "1 * (1 + inflationRate inputs)"] by auto
  have "portfolioValue (last (calculateAccumulation inputs currentAge))
        = portfolioValue (last ?rest)"
    unfolding calculateAccumulation_def accumulationLoop_step [OF le0] using ne by simp
  also have "\<dots> = ?pv' * (1 + expectedReturn inputs) ^ (yearsToRetirement inputs - (0 + 1))
      + monthlyContribution inputs * 12
        * (\<Sum>k < yearsToRetirement inputs - (0 + 1). (1 + expectedReturn inputs) ^ k)"
    by (rule accumulationLoop_last [OF _ le]) simp
  also have "\<dots> = currentSavings inputs * (1 + expectedReturn inputs) ^ yearsToRetirement inputs
      + monthlyContribution inputs * 12
        * (\<Sum>k < yearsToRetirement inputs - 1. (1 + expectedReturn inputs) ^ k)"
    using Suc by (simp add: algebra_simps)
  finally show ?thesis .
qed

lemma fire_portfolioAtRetirement:
  "portfolioAtRetirement (calculateFIRE inputs currentAge monthlyExpenses retirementYears)
   = portfolioValue (last (calculateAccumulation inputs currentAge))"
  by (simp add: calculateFIRE_def Let_def)

section \<open>The compounding of the specification, in closed form\<close>

lemma geometric_shift: "(\<Sum>k < Suc m. (x::real) ^ k) = 1 + x * (\<Sum>k < m. x ^ k)"
  by (simp add: sum.lessThan_Suc_shift sum_distrib_left del: sum.lessThan_Suc)

lemma specSnapshot_sum:
  "specSnapshot P r c n = P * (1 + r) ^ n + c * (\<Sum>k < n - 1. (1 + r) ^ k)"
proof (induction n)
  case 0
  show ?case by simp
next
  case (Suc n)
  show ?case
  proof (cases n)
    case 0
    then show ?thesis by (simp add: algebra_simps)
  next
    case m: (Suc m)
    have IH: "specSnapshot P r c n = P * (1 + r) ^ n + c * (\<Sum>k < m. (1 + r) ^ k)"
      using Suc.IH m by simp
    have "specSnapshot P r c (Suc n) = specSnapshot P r c n * (1 + r) + c"
      using m by (simp add: algebra_simps)
    also have "\<dots> = P * (1 + r) ^ Suc n + c * (1 + (1 + r) * (\<Sum>k < m. (1 + r) ^ k))"
      unfolding IH by (simp add: algebra_simps)
    also have "\<dots> = P * (1 + r) ^ Suc n + c * (\<Sum>k < Suc m. (1 + r) ^ k)"
      by (simp only: geometric_shift)
    finally show ?thesis using m by simp
  qed
qed

lemma geometric_closed:
  assumes "r \<noteq> 0"
  shows "(\<Sum>k < m. (1 + r) ^ k) = (((1 + r) ^ m - 1) / r :: real)"
  using assms by (induction m) (simp_all add: field_simps)

lemma specSnapshot_closed_form:
  assumes "r \<noteq> 0"
  shows "specSnapshot P r c n = compoundingClosedForm P r c n"
  unfolding specSnapshot_sum compoundingClosedForm_def geometric_closed [OF assms] ..

text \<open>
  The portfolio at retirement that the code computes is the snapshot of the year
  \<open>yearsToRetirement\<close> of the specification's compounding, for all inputs.
\<close>

lemma accumulation_is_specSnapshot:
  "portfolioValue (last (calculateAccumulation inputs currentAge)) =
     specSnapshot (currentSavings inputs) (expectedReturn inputs)
       (monthlyContribution inputs * 12) (yearsToRetirement inputs)"
  unfolding accumulation_closed_form specSnapshot_sum ..

section \<open>The end-to-end example\<close>

text \<open>
  Claim C3. For the inputs of the example, with \<open>currentAge\<close> 35, \<open>monthlyExpenses\<close> 2000
  and \<open>retirementYears\<close> 40, the \<open>portfolioAtRetirement\<close> that \<open>calculateFIRE\<close> returns
  equals the deterministic compounding of 500000 at 7 percent a year plus contributions
  of 60000 a year starting from year 1, over the horizon of ten years, in closed form.
  The years are numbered as the accumulation phase numbers them: year 0 is the initial
  state without a contribution, and the value at retirement is the snapshot of year 10,
  taken before the growth of that year, so it holds ten years of return on the savings
  and the contributions of the years 1 to 9. The closed form is
  \<open>500000 * 1.07 ^ 10 + 60000 * (1.07 ^ 9 - 1) / 0.07\<close>, which is 1702255.0035763...
\<close>

theorem fire_example_closed_form:
  "portfolioAtRetirement (calculateFIRE exampleInputs 35 2000 40)
     = compoundingClosedForm 500000 0.07 60000 10
   \<and> portfolioAtRetirement (calculateFIRE exampleInputs 35 2000 40)
     = specSnapshot 500000 0.07 60000 10
   \<and> portfolioAtRetirement (calculateFIRE exampleInputs 35 2000 40)
     = 500000 * (1 + 0.07) ^ 10 + 60000 * (((1 + 0.07) ^ 9 - 1) / 0.07)
   \<and> portfolioAtRetirement (calculateFIRE exampleInputs 35 2000 40)
     = 340451000715268733449 / 200000000000000"
proof -
  have nz: "(0.07::real) \<noteq> 0" by simp
  have e: "portfolioAtRetirement (calculateFIRE exampleInputs 35 2000 40)
           = specSnapshot 500000 0.07 60000 10"
    unfolding fire_portfolioAtRetirement accumulation_is_specSnapshot
    by (simp add: exampleInputs_def)
  have c: "specSnapshot 500000 0.07 60000 10 = compoundingClosedForm 500000 0.07 60000 10"
    by (rule specSnapshot_closed_form [OF nz])
  have v: "compoundingClosedForm 500000 0.07 60000 10
           = 500000 * (1 + 0.07) ^ 10 + 60000 * (((1 + 0.07) ^ 9 - 1) / 0.07)"
    by (simp add: compoundingClosedForm_def)
  have n: "500000 * (1 + 0.07) ^ 10 + 60000 * (((1 + 0.07) ^ 9 - 1) / 0.07)
           = (340451000715268733449 / 200000000000000 :: real)"
    by (simp add: power_divide)
  show ?thesis using e c v n by simp
qed

section \<open>The runway example\<close>

text \<open>
  Claim C8. For a portfolio of 1000000 and a withdrawal rate of 0.04, with the
  exchange constant 0.74, the annual withdrawal in the comparison currency is 29600,
  in \<open>CountryDetail\<close> and in \<open>calculateAffordableBudget\<close> alike; against a country
  whose cost at the chosen tier is 1000 a month, 12000 a year, the years of runway are
  29600 / 12000, which is 2.47 to two decimals.
\<close>

theorem runway_example:
  assumes "costOfLivingTotal country selectedBudget = 1000"
  shows "annualWithdrawalUSD (CountryDetail country selectedBudget 1000000 0.04)
           = 1000000 * 0.04 * 0.74
       \<and> annualWithdrawalUSD (CountryDetail country selectedBudget 1000000 0.04) = 29600
       \<and> annual (calculateAffordableBudget 1000000 0.04) = 29600
       \<and> annualBudget (CountryDetail country selectedBudget 1000000 0.04) = 12000
       \<and> runwayYears (CountryDetail country selectedBudget 1000000 0.04) = 29600 / 12000
       \<and> \<bar>runwayYears (CountryDetail country selectedBudget 1000000 0.04) - 2.47\<bar> < 0.005"
  using assms by (simp add: CountryDetail_def calculateAffordableBudget_def Let_def)

theorem runway_example_witness:
  "costOfLivingTotal \<lparr>costOfLivingTotal = (\<lambda>t. case t of frugal \<Rightarrow> 700 | moderate \<Rightarrow> 1000
        | comfortable \<Rightarrow> 1800)\<rparr> moderate = 1000
   \<and> runwayYears (CountryDetail \<lparr>costOfLivingTotal = (\<lambda>t. case t of frugal \<Rightarrow> 700
        | moderate \<Rightarrow> 1000 | comfortable \<Rightarrow> 1800)\<rparr> moderate 1000000 0.04) = 37 / 15"
proof -
  have h: "costOfLivingTotal \<lparr>costOfLivingTotal = (\<lambda>t. case t of frugal \<Rightarrow> 700
        | moderate \<Rightarrow> 1000 | comfortable \<Rightarrow> 1800)\<rparr> moderate = 1000"
    by simp
  from runway_example [OF h] h show ?thesis by simp
qed

section \<open>The allocation ratios of the contribution brackets\<close>

text \<open>
  The ratios are written with four decimals. For the bracket up to 55 the source's
  comment gives the OA ratio as 23 percent of 37 percent, which is 0.6216 to four
  decimals, where the table has 0.6217.
\<close>

lemma allocation_sum_under_55: "allocationSum UNDER_55 = 1.0001"
  by (simp add: allocationSum_def UNDER_55_def)

text \<open>
  Claim C6, as stated, fails: the three ratios of the bracket 60 to 65 sum to 0.9999,
  which is not within 0.000001 of 1.
\<close>

theorem allocation_sum_counterexample:
  "\<not> \<bar>allocationSum AGE_60_65 - 1\<bar> \<le> 1 / 1000000"
  by (simp add: allocationSum_def AGE_60_65_def)

text \<open>
  Claim C6, amended. For each of the brackets 55 to 60, 60 to 65 and 65 to 70 the three
  ratios sum to 1 within a tolerance of 0.0001: the sums are 1, 0.9999 and 1.
\<close>

theorem allocation_sum_amended:
  "allocationSum AGE_55_60 = 1 \<and> allocationSum AGE_60_65 = 0.9999
   \<and> allocationSum AGE_65_70 = 1
   \<and> \<bar>allocationSum AGE_55_60 - 1\<bar> \<le> 1 / 10000
   \<and> \<bar>allocationSum AGE_60_65 - 1\<bar> \<le> 1 / 10000
   \<and> \<bar>allocationSum AGE_65_70 - 1\<bar> \<le> 1 / 10000"
  by (simp add: allocationSum_def AGE_55_60_def AGE_60_65_def AGE_65_70_def)

section \<open>runMonteCarloSimulation: the matrix of the trials\<close>

text \<open>
  Every trial pushes one value per simulated year, so every row of \<open>allResults\<close> has
  \<open>yearsToRetirement + retirementYears\<close> entries, and there is one row per trial.
\<close>

lemma mcAccumulation_length:
  "length (yearlyValues ((mcAccumulationStep inputs rnd ^^ n) st)) = length (yearlyValues st) + n"
  by (induction n) (simp_all add: mcAccumulationStep_def Let_def)

lemma mcRetirement_length:
  "length (yearlyValues ((mcRetirementStep inputs rnd ^^ n) st)) = length (yearlyValues st) + n"
  by (induction n) (simp_all add: mcRetirementStep_def Let_def)

lemma mcTrial_length:
  "length (yearlyValues (mcTrial inputs retirementYears rnd c))
   = yearsToRetirement inputs + retirementYears"
  by (simp add: mcTrial_def Let_def mcRetirement_length mcAccumulation_length)

lemma mcSim_rows:
  "length (allResults ((mcSimStep inputs retirementYears rnd ^^ n) ts)) = length (allResults ts) + n
   \<and> ((\<forall>r \<in> set (allResults ts). length r = yearsToRetirement inputs + retirementYears)
      \<longrightarrow> (\<forall>r \<in> set (allResults ((mcSimStep inputs retirementYears rnd ^^ n) ts)).
             length r = yearsToRetirement inputs + retirementYears))"
  by (induction n) (auto simp add: mcSimStep_def Let_def mcTrial_length)

lemma mcTrials_length:
  "length (allResults (mcTrials inputs retirementYears rnd simulations)) = simulations"
  unfolding mcTrials_def using mcSim_rows [where n = simulations] by simp

lemma mcTrials_rows:
  "r \<in> set (allResults (mcTrials inputs retirementYears rnd simulations))
   \<Longrightarrow> length r = yearsToRetirement inputs + retirementYears"
  unfolding mcTrials_def
  using mcSim_rows [where n = simulations and inputs = inputs
      and retirementYears = retirementYears and rnd = rnd
      and ts = "\<lparr>allResults = [], successCount = 0, draws = 0\<rparr>"] by simp

lemma jsSort_length: "length (jsSort xs) = length xs"
proof -
  have "length (List.map_filter id xs) + length (filter (\<lambda>x. x = None) xs) = length xs"
    by (induction xs) (auto split: option.splits)
  then show ?thesis by (simp add: jsSort_def)
qed

lemma jsSort_defined: "jsSort (map Some ys) = map Some (sort ys)"
proof -
  have a: "List.map_filter id (map Some ys) = ys"
    by (induction ys) simp_all
  have b: "filter (\<lambda>x. x = None) (map Some ys) = []"
    by (induction ys) simp_all
  show ?thesis by (simp add: jsSort_def a b)
qed

lemma valuesAtYear_defined:
  assumes "\<forall>r \<in> set rows. yr < length r"
  shows "valuesAtYear rows yr = map Some (sort (map (\<lambda>r. r ! yr) rows))"
proof -
  have "map (\<lambda>r. jsIndex r yr) rows = map Some (map (\<lambda>r. r ! yr) rows)"
    using assms by (simp add: jsIndex_def)
  then show ?thesis unfolding valuesAtYear_def by (simp only: jsSort_defined)
qed

lemma rankIndex_less:
  assumes "0 \<le> p" and "p < 1" and "1 \<le> n"
  shows "rankIndex n p < n"
proof -
  have "real n * p < real n" using assms by simp
  then have a: "\<lfloor>real n * p\<rfloor> < int n" by (simp add: floor_less_iff)
  have "0 \<le> real n * p" using assms by simp
  then have b: "0 \<le> \<lfloor>real n * p\<rfloor>" by (simp only: zero_le_floor)
  show ?thesis unfolding rankIndex_def using a b by linarith
qed

lemma rankIndex_mono:
  assumes "p \<le> q"
  shows "rankIndex n p \<le> rankIndex n q"
proof -
  have "real n * p \<le> real n * q" using assms by (simp add: mult_left_mono)
  then show ?thesis unfolding rankIndex_def by (intro nat_mono floor_mono)
qed

lemma atRank_defined:
  assumes "rankIndex n p < length col"
  shows "atRank (map Some col) n p = Some (col ! rankIndex n p)"
  using assms by (simp add: atRank_def jsIndex_def)

lemma atRank_empty: "atRank [] n p = None"
  by (simp add: atRank_def jsIndex_def)


text \<open>
  With at least one trial, the entry of a year in the column of a rank \<open>p\<close> below 1 is
  the element of that year's sorted values at the index \<open>Math.floor(simulations * p)\<close>,
  which is within the array.
\<close>

lemma percentile_column_entry:
  assumes "ts = mcTrials inputs retirementYears rnd simulations"
    and "yr < yearsToRetirement inputs + retirementYears"
    and "1 \<le> simulations"
    and "col = sort (map (\<lambda>r. r ! yr) (allResults ts))"
    and "0 \<le> p" and "p < 1"
  shows "map (\<lambda>y. atRank (valuesAtYear (allResults ts) y) simulations p)
           [0 ..< yearsToRetirement inputs + retirementYears] ! yr
         = Some (col ! rankIndex simulations p)
       \<and> rankIndex simulations p < length col \<and> length col = simulations"
proof -
  have rows: "\<forall>r \<in> set (allResults ts). yr < length r"
    using mcTrials_rows assms(2) unfolding assms(1) by fastforce
  have len: "length col = simulations"
    unfolding assms(4) assms(1) by (simp add: mcTrials_length)
  have vals: "valuesAtYear (allResults ts) yr = map Some col"
    unfolding assms(4) by (rule valuesAtYear_defined [OF rows])
  have rk: "rankIndex simulations p < length col"
    unfolding len by (rule rankIndex_less [OF assms(5,6,3)])
  have "atRank (valuesAtYear (allResults ts) yr) simulations p
        = Some (col ! rankIndex simulations p)"
    unfolding vals by (rule atRank_defined [OF rk])
  then show ?thesis using assms(2) rk len by simp
qed

lemma trial_rows: "allResults (mcTrials trialInputs 1 twoDraws 2) = [100] # [85] # []"
  by (simp add: mcTrials_def numeral_2_eq_2 mcSimStep_def mcTrial_def mcRetirementStep_def
        trialInputs_def twoDraws_def volatility_def Let_def lastOpt_def)

lemma ranks2: "rankIndex 2 0.05 = 0" "rankIndex 2 0.25 = 0" "rankIndex 2 0.50 = 1"
  "rankIndex 2 0.75 = 1" "rankIndex 2 0.95 = 1"
  by (simp_all add: rankIndex_def)

lemma endValues_defined:
  assumes "\<forall>r \<in> set rows. r \<noteq> []"
  shows "jsSort (map lastOpt rows) = map Some (sort (map last rows))"
proof -
  have "map lastOpt rows = map Some (map last rows)"
    using assms by (simp add: lastOpt_def)
  then show ?thesis by (simp only: jsSort_defined)
qed

lemma jsSort_Nil: "jsSort [] = []"
  by (simp add: jsSort_def)


section \<open>runMonteCarloSimulation: nearest-rank percentiles\<close>

text \<open>
  Claim C4. Let \<open>col\<close> be the values of the year \<open>yr\<close> across all trials, sorted
  ascending. With at least one trial, each of the five percentile entries of that year
  is the element of \<open>col\<close> at the index \<open>Math.floor(simulations * p)\<close> for its \<open>p\<close>
  among 0.05, 0.25, 0.5, 0.75 and 0.95: an order statistic, one of the values of the
  trials, not an interpolation between two of them. Consequently the five entries
  are ordered: percentile5 \<open>\<le>\<close> percentile25 \<open>\<le>\<close> percentile50 \<open>\<le>\<close> percentile75 \<open>\<le>\<close>
  percentile95. (With no trial at all there is no value to pick and every entry is
  \<open>undefined\<close>; that case is the subject of claim C10.)
\<close>

theorem montecarlo_percentiles_nearest_rank:
  assumes "res = runMonteCarloSimulation inputs currentAge monthlyExpenses simulations
                   retirementYears rnd"
    and "ts = mcTrials inputs retirementYears rnd simulations"
    and "yr < yearsToRetirement inputs + retirementYears"
    and "1 \<le> simulations"
    and "col = sort (map (\<lambda>r. r ! yr) (allResults ts))"
  shows "percentile5 res ! yr = Some (col ! rankIndex simulations 0.05)
       \<and> percentile25 res ! yr = Some (col ! rankIndex simulations 0.25)
       \<and> percentile50 res ! yr = Some (col ! rankIndex simulations 0.50)
       \<and> percentile75 res ! yr = Some (col ! rankIndex simulations 0.75)
       \<and> percentile95 res ! yr = Some (col ! rankIndex simulations 0.95)
       \<and> length col = simulations \<and> sorted col
       \<and> col ! rankIndex simulations 0.05 \<in> set (map (\<lambda>r. r ! yr) (allResults ts))
       \<and> col ! rankIndex simulations 0.25 \<in> set (map (\<lambda>r. r ! yr) (allResults ts))
       \<and> col ! rankIndex simulations 0.50 \<in> set (map (\<lambda>r. r ! yr) (allResults ts))
       \<and> col ! rankIndex simulations 0.75 \<in> set (map (\<lambda>r. r ! yr) (allResults ts))
       \<and> col ! rankIndex simulations 0.95 \<in> set (map (\<lambda>r. r ! yr) (allResults ts))
       \<and> col ! rankIndex simulations 0.05 \<le> col ! rankIndex simulations 0.25
       \<and> col ! rankIndex simulations 0.25 \<le> col ! rankIndex simulations 0.50
       \<and> col ! rankIndex simulations 0.50 \<le> col ! rankIndex simulations 0.75
       \<and> col ! rankIndex simulations 0.75 \<le> col ! rankIndex simulations 0.95"
proof -
  note entry = percentile_column_entry [OF assms(2,3,4,5)]
  have srt: "sorted col" unfolding assms(5) by simp
  have len: "length col = simulations" using entry [of 0] by simp
  have rk: "rankIndex simulations p < length col" if "0 \<le> p" "p < 1" for p
    using entry [OF that] by simp
  have mem: "col ! rankIndex simulations p \<in> set (map (\<lambda>r. r ! yr) (allResults ts))"
    if "0 \<le> p" "p < 1" for p
  proof -
    have "col ! rankIndex simulations p \<in> set col" using rk [OF that] by simp
    then show ?thesis unfolding assms(5) by simp
  qed
  have ord: "col ! rankIndex simulations p \<le> col ! rankIndex simulations q"
    if "p \<le> q" "0 \<le> q" "q < 1" for p q
    using sorted_nth_mono [OF srt rankIndex_mono [OF that(1)] rk [OF that(2,3)]] .
  have p5: "percentile5 res ! yr = Some (col ! rankIndex simulations 0.05)"
    unfolding assms(1) runMonteCarloSimulation_def Let_def assms(2) [symmetric]
    using entry [of "0.05"] by simp
  have p25: "percentile25 res ! yr = Some (col ! rankIndex simulations 0.25)"
    unfolding assms(1) runMonteCarloSimulation_def Let_def assms(2) [symmetric]
    using entry [of "0.25"] by simp
  have p50: "percentile50 res ! yr = Some (col ! rankIndex simulations 0.50)"
    unfolding assms(1) runMonteCarloSimulation_def Let_def assms(2) [symmetric]
    using entry [of "0.50"] by simp
  have p75: "percentile75 res ! yr = Some (col ! rankIndex simulations 0.75)"
    unfolding assms(1) runMonteCarloSimulation_def Let_def assms(2) [symmetric]
    using entry [of "0.75"] by simp
  have p95: "percentile95 res ! yr = Some (col ! rankIndex simulations 0.95)"
    unfolding assms(1) runMonteCarloSimulation_def Let_def assms(2) [symmetric]
    using entry [of "0.95"] by simp
  have m: "col ! rankIndex simulations 0.05 \<in> set (map (\<lambda>r. r ! yr) (allResults ts))"
    "col ! rankIndex simulations 0.25 \<in> set (map (\<lambda>r. r ! yr) (allResults ts))"
    "col ! rankIndex simulations 0.50 \<in> set (map (\<lambda>r. r ! yr) (allResults ts))"
    "col ! rankIndex simulations 0.75 \<in> set (map (\<lambda>r. r ! yr) (allResults ts))"
    "col ! rankIndex simulations 0.95 \<in> set (map (\<lambda>r. r ! yr) (allResults ts))"
    by (rule mem; simp)+
  have o: "col ! rankIndex simulations 0.05 \<le> col ! rankIndex simulations 0.25"
    "col ! rankIndex simulations 0.25 \<le> col ! rankIndex simulations 0.50"
    "col ! rankIndex simulations 0.50 \<le> col ! rankIndex simulations 0.75"
    "col ! rankIndex simulations 0.75 \<le> col ! rankIndex simulations 0.95"
    by (rule ord; simp)+
  show ?thesis using p5 p25 p50 p75 p95 len srt m o by blast
qed

text \<open>The run of two trials: the column of the only year is 85, 100.\<close>

theorem montecarlo_percentiles_nearest_rank_witness:
  "(0::nat) < yearsToRetirement trialInputs + 1 \<and> (1::nat) \<le> 2
   \<and> percentile5 (runMonteCarloSimulation trialInputs 35 2000 2 1 twoDraws) ! 0 = Some 85
   \<and> percentile25 (runMonteCarloSimulation trialInputs 35 2000 2 1 twoDraws) ! 0 = Some 85
   \<and> percentile50 (runMonteCarloSimulation trialInputs 35 2000 2 1 twoDraws) ! 0 = Some 100
   \<and> percentile75 (runMonteCarloSimulation trialInputs 35 2000 2 1 twoDraws) ! 0 = Some 100
   \<and> percentile95 (runMonteCarloSimulation trialInputs 35 2000 2 1 twoDraws) ! 0 = Some 100"
proof -
  have y: "(0::nat) < yearsToRetirement trialInputs + 1" by simp
  have s: "(1::nat) \<le> 2" by simp
  have col: "sort (map (\<lambda>r. r ! 0) (allResults (mcTrials trialInputs 1 twoDraws 2))) = [85, 100]"
    unfolding trial_rows by simp
  from montecarlo_percentiles_nearest_rank [where currentAge = 35 and monthlyExpenses = 2000
        and rnd = twoDraws, OF refl refl y s refl] y s
  show ?thesis unfolding col ranks2 by simp
qed


section \<open>runMonteCarloSimulation: the ranks are in bounds\<close>

text \<open>
  Claim C10. For each \<open>p\<close> among 0.05, 0.25, 0.5, 0.75 and 0.95 the rank
  \<open>Math.floor(simulations * p)\<close> is less than \<open>simulations\<close> exactly when there is at
  least one trial. The sorted column of every year and the sorted array of the end
  values have \<open>simulations\<close> elements. So with at least one trial every percentile
  lookup and the lookup of \<open>medianEndValue\<close> are in bounds and read a number; with no
  trial the rank 0 is out of bounds and each of them reads \<open>undefined\<close>. Every function of
  the embedding is total: every loop is bounded by its counter.
\<close>

theorem montecarlo_rank_in_bounds:
  assumes "res = runMonteCarloSimulation inputs currentAge monthlyExpenses simulations
                   retirementYears rnd"
    and "ts = mcTrials inputs retirementYears rnd simulations"
    and "yr < yearsToRetirement inputs + retirementYears"
    and "p \<in> {0.05, 0.25, 0.5, 0.75, 0.95}"
  shows "(rankIndex simulations p < simulations) = (1 \<le> simulations)
       \<and> length (valuesAtYear (allResults ts) yr) = simulations
       \<and> length (jsSort (map lastOpt (allResults ts))) = simulations
       \<and> (1 \<le> simulations \<longrightarrow>
            percentile5 res ! yr \<noteq> None \<and> percentile25 res ! yr \<noteq> None
          \<and> percentile50 res ! yr \<noteq> None \<and> percentile75 res ! yr \<noteq> None
          \<and> percentile95 res ! yr \<noteq> None \<and> medianEndValue res \<noteq> None)
       \<and> (simulations = 0 \<longrightarrow>
            percentile5 res ! yr = None \<and> percentile25 res ! yr = None
          \<and> percentile50 res ! yr = None \<and> percentile75 res ! yr = None
          \<and> percentile95 res ! yr = None \<and> medianEndValue res = None)"
proof -
  have p: "0 \<le> p" "p < 1" using assms(4) by auto
  have a: "(rankIndex simulations p < simulations) = (1 \<le> simulations)"
  proof (cases "simulations = 0")
    case True
    then show ?thesis by simp
  next
    case False
    then have "1 \<le> simulations" by simp
    with rankIndex_less [OF p this] show ?thesis by simp
  qed
  have b: "length (valuesAtYear (allResults ts) yr) = simulations"
    unfolding valuesAtYear_def assms(2) by (simp add: jsSort_length mcTrials_length)
  have c: "length (jsSort (map lastOpt (allResults ts))) = simulations"
    unfolding assms(2) by (simp add: jsSort_length mcTrials_length)
  have d: "percentile5 res ! yr \<noteq> None \<and> percentile25 res ! yr \<noteq> None
          \<and> percentile50 res ! yr \<noteq> None \<and> percentile75 res ! yr \<noteq> None
          \<and> percentile95 res ! yr \<noteq> None \<and> medianEndValue res \<noteq> None"
    if s: "1 \<le> simulations"
  proof -
    have ne: "\<forall>r \<in> set (allResults ts). r \<noteq> []"
      using mcTrials_rows assms(3) unfolding assms(2) by fastforce
    have len: "length (sort (map last (allResults ts))) = simulations"
      unfolding assms(2) by (simp add: mcTrials_length)
    have "rankIndex simulations 0.5 < length (sort (map last (allResults ts)))"
      unfolding len by (rule rankIndex_less [OF _ _ s]) simp_all
    from atRank_defined [OF this]
    have med: "medianEndValue res \<noteq> None"
      unfolding assms(1) runMonteCarloSimulation_def Let_def assms(2) [symmetric]
        endValues_defined [OF ne] by simp
    note entry = percentile_column_entry [OF assms(2,3) s refl]
    have e5: "percentile5 res ! yr \<noteq> None"
      unfolding assms(1) runMonteCarloSimulation_def Let_def assms(2) [symmetric]
      using entry [of "0.05"] by simp
    have e25: "percentile25 res ! yr \<noteq> None"
      unfolding assms(1) runMonteCarloSimulation_def Let_def assms(2) [symmetric]
      using entry [of "0.25"] by simp
    have e50: "percentile50 res ! yr \<noteq> None"
      unfolding assms(1) runMonteCarloSimulation_def Let_def assms(2) [symmetric]
      using entry [of "0.50"] by simp
    have e75: "percentile75 res ! yr \<noteq> None"
      unfolding assms(1) runMonteCarloSimulation_def Let_def assms(2) [symmetric]
      using entry [of "0.75"] by simp
    have e95: "percentile95 res ! yr \<noteq> None"
      unfolding assms(1) runMonteCarloSimulation_def Let_def assms(2) [symmetric]
      using entry [of "0.95"] by simp
    show ?thesis using med e5 e25 e50 e75 e95 by blast
  qed
  have e: "percentile5 res ! yr = None \<and> percentile25 res ! yr = None
          \<and> percentile50 res ! yr = None \<and> percentile75 res ! yr = None
          \<and> percentile95 res ! yr = None \<and> medianEndValue res = None"
    if s: "simulations = 0"
  proof -
    have "length (allResults ts) = 0" unfolding assms(2) s [symmetric] by (rule mcTrials_length)
    then have nil: "allResults ts = []" by simp
    show ?thesis
      unfolding assms(1) runMonteCarloSimulation_def Let_def assms(2) [symmetric] nil
      using assms(3) by (simp add: valuesAtYear_def jsSort_Nil atRank_empty)
  qed
  show ?thesis using a b c d e by blast
qed


text \<open>The run of two trials, and the same run with no trial.\<close>

theorem montecarlo_rank_in_bounds_witness:
  "(0::nat) < yearsToRetirement trialInputs + 1
   \<and> (0.95::real) \<in> {0.05, 0.25, 0.5, 0.75, 0.95}
   \<and> (1::nat) \<le> 2 \<and> rankIndex 2 0.95 < 2
   \<and> percentile95 (runMonteCarloSimulation trialInputs 35 2000 2 1 twoDraws) ! 0 \<noteq> None
   \<and> medianEndValue (runMonteCarloSimulation trialInputs 35 2000 2 1 twoDraws) \<noteq> None
   \<and> \<not> rankIndex 0 0.95 < 0
   \<and> percentile95 (runMonteCarloSimulation trialInputs 35 2000 0 1 twoDraws) ! 0 = None
   \<and> medianEndValue (runMonteCarloSimulation trialInputs 35 2000 0 1 twoDraws) = None"
proof -
  have y: "(0::nat) < yearsToRetirement trialInputs + 1" by simp
  have p: "(0.95::real) \<in> {0.05, 0.25, 0.5, 0.75, 0.95}" by simp
  from montecarlo_rank_in_bounds [where currentAge = 35 and monthlyExpenses = 2000
        and simulations = 2 and rnd = twoDraws, OF refl refl y p]
    montecarlo_rank_in_bounds [where currentAge = 35 and monthlyExpenses = 2000
        and simulations = 0 and rnd = twoDraws, OF refl refl y p] y p
  show ?thesis by simp
qed

section \<open>runHistoricalBacktest: the data\<close>

lemma historical_lengths:
  "length HISTORICAL_RETURNS = 96" "length HISTORICAL_INFLATION = 96"
  by (simp_all add: HISTORICAL_RETURNS_def HISTORICAL_INFLATION_def)

lemma historical_returns_above_minus_one: "list_all (\<lambda>x. -1 < x) HISTORICAL_RETURNS"
  unfolding HISTORICAL_RETURNS_def by simp

lemma historical_inflation_above_minus_one: "list_all (\<lambda>x. -1 < x) HISTORICAL_INFLATION"
  unfolding HISTORICAL_INFLATION_def by simp

lemma return_factor_pos:
  assumes "i < 96"
  shows "0 < 1 + HISTORICAL_RETURNS ! i"
proof -
  have "- 1 < HISTORICAL_RETURNS ! i"
    using historical_returns_above_minus_one historical_lengths(1) assms
    unfolding list_all_length by simp
  then show ?thesis by linarith
qed

lemma inflation_factor_pos:
  assumes "i < 96"
  shows "0 < 1 + HISTORICAL_INFLATION ! i"
proof -
  have "- 1 < HISTORICAL_INFLATION ! i"
    using historical_inflation_above_minus_one historical_lengths(2) assms
    unfolding list_all_length by simp
  then show ?thesis by linarith
qed


section \<open>runHistoricalBacktest: the number of sequences\<close>

text \<open>
  Claim C5. The data has 96 entries. When \<open>yearsToRetirement + retirementYears\<close> is less
  than 96, \<open>runHistoricalBacktest\<close> returns exactly
  \<open>len(HISTORICAL_RETURNS) - (yearsToRetirement + retirementYears)\<close> sequences. When it is
  96 or more, the loop over the start years does not run: the function returns, with an
  empty list of sequences; its rates, its worst and best sequence and its median and
  average are then what the source gets from \<open>0 / 0\<close> and from reading an empty array
  (\<open>NaN\<close> and \<open>undefined\<close>, here \<open>None\<close>), and nothing is thrown.
\<close>

theorem backtest_sequence_count:
  assumes "res = runHistoricalBacktest inputs currentAge retirementYears"
  shows "length HISTORICAL_RETURNS = 96
    \<and> (yearsToRetirement inputs + retirementYears < 96 \<longrightarrow>
          int (length (sequences res))
          = int (length HISTORICAL_RETURNS) - int (yearsToRetirement inputs + retirementYears))
    \<and> (96 \<le> yearsToRetirement inputs + retirementYears \<longrightarrow>
          res = \<lparr>sequences = [], backtestSuccessRate = None, worstSequence = None,
                 bestSequence = None, medianFinalValue = None, averageFinalValue = None,
                 percentSurvived30Years = None\<rparr>)"
proof -
  have a: "yearsToRetirement inputs + retirementYears < 96 \<longrightarrow>
          int (length (sequences res))
          = int (length HISTORICAL_RETURNS) - int (yearsToRetirement inputs + retirementYears)"
    unfolding assms runHistoricalBacktest_def Let_def historical_lengths by simp
  have b: "res = \<lparr>sequences = [], backtestSuccessRate = None, worstSequence = None,
                 bestSequence = None, medianFinalValue = None, averageFinalValue = None,
                 percentSurvived30Years = None\<rparr>"
    if "96 \<le> yearsToRetirement inputs + retirementYears"
  proof -
    have "nat (int 96 - int (yearsToRetirement inputs + retirementYears)) = 0"
      using that by simp
    then show ?thesis
      unfolding assms runHistoricalBacktest_def Let_def historical_lengths
      by (simp add: jsIndex_def lastOpt_def)
  qed
  show ?thesis using a b historical_lengths(1) by blast
qed

text \<open>A horizon of 10 + 30 years gives 56 sequences; one of 70 + 30 years gives none.\<close>

theorem backtest_sequence_count_witness:
  "yearsToRetirement exampleInputs + 30 < 96 \<and> 96 \<le> yearsToRetirement longHorizon + 30
   \<and> length (sequences (runHistoricalBacktest exampleInputs 35 30)) = 56
   \<and> sequences (runHistoricalBacktest longHorizon 35 30) = []"
proof -
  have a: "yearsToRetirement exampleInputs + 30 < 96" by (simp add: exampleInputs_def)
  have b: "96 \<le> yearsToRetirement longHorizon + 30" by (simp add: longHorizon_def)
  have c: "yearsToRetirement exampleInputs = 10" by (simp add: exampleInputs_def)
  from backtest_sequence_count [where inputs = exampleInputs and currentAge = 35
      and retirementYears = 30, OF refl] a
  have "int (length (sequences (runHistoricalBacktest exampleInputs 35 30))) = 56"
    unfolding c by simp
  then have d: "length (sequences (runHistoricalBacktest exampleInputs 35 30)) = 56" by linarith
  from backtest_sequence_count [where inputs = longHorizon and currentAge = 35
      and retirementYears = 30, OF refl] b
  have "runHistoricalBacktest longHorizon 35 30 =
     \<lparr>sequences = [], backtestSuccessRate = None, worstSequence = None,
      bestSequence = None, medianFinalValue = None, averageFinalValue = None,
      percentSurvived30Years = None\<rparr>" by blast
  then have e: "sequences (runHistoricalBacktest longHorizon 35 30) = []" by simp
  show ?thesis using a b d e by blast
qed

section \<open>runHistoricalBacktest: replaying one start year\<close>

lemma backtestAccumulation_stop:
  "\<not> yr < yearsToRetirement inputs \<Longrightarrow> backtestAccumulation inputs startIdx yr st = st"
  by (subst backtestAccumulation.simps) simp

lemma backtestAccumulation_step:
  "yr < yearsToRetirement inputs \<Longrightarrow>
   backtestAccumulation inputs startIdx yr st
   = backtestAccumulation inputs startIdx (yr + 1) (accumulationStep inputs startIdx yr st)"
  by (subst backtestAccumulation.simps) simp

lemma backtestRetirement_stop:
  "\<not> yr < n \<Longrightarrow> backtestRetirement inputs n startIdx yr st = st"
  by (subst backtestRetirement.simps) simp

lemma backtestRetirement_step:
  assumes "yr < n" and "startIdx + yearsToRetirement inputs + yr < 96"
  shows "backtestRetirement inputs n startIdx yr st
   = backtestRetirement inputs n startIdx (yr + 1) (retirementStep inputs startIdx yr st)"
  using assms by (subst backtestRetirement.simps) (simp add: historical_lengths)

text \<open>
  With non-negative contributions the accumulation years keep the portfolio non-negative;
  they never set \<open>yearsDepleted\<close>.
\<close>

lemma accumulationStep_keeps:
  assumes "0 \<le> monthlyContribution inputs" and "startIdx + yr < 96" and "0 \<le> rPortfolio st"
  shows "0 \<le> rPortfolio (accumulationStep inputs startIdx yr st)
       \<and> rYearsDepleted (accumulationStep inputs startIdx yr st) = rYearsDepleted st"
proof -
  have "0 \<le> rPortfolio st * (1 + HISTORICAL_RETURNS ! (startIdx + yr))"
    using assms(3) return_factor_pos [OF assms(2)] by simp
  then show ?thesis using assms(1) by (simp add: accumulationStep_def Let_def)
qed

lemma backtestAccumulation_keeps:
  assumes "0 \<le> monthlyContribution inputs" and "startIdx + yearsToRetirement inputs \<le> 96"
    and "0 \<le> rPortfolio st"
  shows "0 \<le> rPortfolio (backtestAccumulation inputs startIdx yr st)
       \<and> rYearsDepleted (backtestAccumulation inputs startIdx yr st) = rYearsDepleted st"
  using assms(3)
proof (induction "yearsToRetirement inputs - yr" arbitrary: yr st)
  case 0
  then have "\<not> yr < yearsToRetirement inputs" by simp
  then show ?case using 0 by (simp add: backtestAccumulation_stop)
next
  case (Suc m)
  then have lt: "yr < yearsToRetirement inputs" and m: "m = yearsToRetirement inputs - (yr + 1)"
    by simp_all
  have r: "startIdx + yr < 96" using lt assms(2) by simp
  note k = accumulationStep_keeps [OF assms(1) r Suc.prems]
  from Suc.hyps(1) [OF m conjunct1 [OF k]] k show ?case
    unfolding backtestAccumulation_step [OF lt] by simp
qed

lemma retirementStart_props:
  assumes "0 \<le> currentSavings inputs" and "0 \<le> monthlyContribution inputs"
    and "startIdx + yearsToRetirement inputs \<le> 96"
  shows "rYearsDepleted (retirementStart inputs startIdx) = None
       \<and> 0 \<le> rPortfolio (retirementStart inputs startIdx)
       \<and> rWithdrawal (retirementStart inputs startIdx)
           = rPortfolio (retirementStart inputs startIdx) * withdrawalRate inputs"
proof -
  let ?st0 = "\<lparr>rPortfolio = currentSavings inputs, rLowestValue = currentSavings inputs,
                 rLowestYear = 1928 + int startIdx, rYearsDepleted = None,
                 rRealReturns = [], rWithdrawal = 0\<rparr>"
  have "0 \<le> rPortfolio ?st0" using assms(1) by simp
  from backtestAccumulation_keeps [OF assms(2) assms(3) this, of 0] show ?thesis
    by (simp add: retirementStart_def Let_def)
qed

text \<open>
  One retirement year. While \<open>yearsDepleted\<close> is not set, the year either leaves a
  positive portfolio or sets \<open>yearsDepleted\<close> to the year and the portfolio to 0. Once it
  is set, a portfolio that is not positive stays so, and the lowest value and its year are
  not touched.
\<close>

lemma retirementStep_withdrawal:
  assumes "startIdx + yearsToRetirement inputs + yr < 96" and "0 \<le> rWithdrawal st"
  shows "0 \<le> rWithdrawal (retirementStep inputs startIdx yr st)"
  using assms(2) inflation_factor_pos [OF assms(1)]
  by (simp add: retirementStep_def Let_def)

lemma retirementStep_live:
  assumes "rYearsDepleted st = None"
  shows "(rYearsDepleted (retirementStep inputs startIdx yr st) = None
          \<and> 0 < rPortfolio (retirementStep inputs startIdx yr st))
       \<or> (rYearsDepleted (retirementStep inputs startIdx yr st) = Some yr
          \<and> rPortfolio (retirementStep inputs startIdx yr st) = 0
          \<and> rLowestValue (retirementStep inputs startIdx yr st) = rLowestValue st
          \<and> rLowestYear (retirementStep inputs startIdx yr st) = rLowestYear st)"
  using assms by (auto simp add: retirementStep_def Let_def)

lemma retirementStep_depleted:
  assumes "rYearsDepleted st = Some d" and "rPortfolio st \<le> 0" and "0 \<le> rWithdrawal st"
    and "startIdx + yearsToRetirement inputs + yr < 96"
  shows "rYearsDepleted (retirementStep inputs startIdx yr st) = Some d
       \<and> rPortfolio (retirementStep inputs startIdx yr st) \<le> 0
       \<and> rLowestValue (retirementStep inputs startIdx yr st) = rLowestValue st
       \<and> rLowestYear (retirementStep inputs startIdx yr st) = rLowestYear st"
proof -
  have "rPortfolio st * (1 + HISTORICAL_RETURNS ! (startIdx + yearsToRetirement inputs + yr)) \<le> 0"
    using assms(2) return_factor_pos [OF assms(4)] by (simp add: mult_le_0_iff)
  then have "rPortfolio st * (1 + HISTORICAL_RETURNS ! (startIdx + yearsToRetirement inputs + yr))
             - rWithdrawal st \<le> 0" using assms(3) by linarith
  then show ?thesis using assms(1) by (simp add: retirementStep_def Let_def)
qed

text \<open>
  With a negative pending withdrawal a positive portfolio grows: the year leaves it
  positive, sets nothing, and the pending withdrawal stays negative.
\<close>

lemma retirementStep_growing:
  assumes "rYearsDepleted st = None" and "rWithdrawal st < 0" and "0 < rPortfolio st"
    and "startIdx + yearsToRetirement inputs + yr < 96"
  shows "rYearsDepleted (retirementStep inputs startIdx yr st) = None
       \<and> rWithdrawal (retirementStep inputs startIdx yr st) < 0
       \<and> 0 < rPortfolio (retirementStep inputs startIdx yr st)"
proof -
  have "0 < rPortfolio st * (1 + HISTORICAL_RETURNS ! (startIdx + yearsToRetirement inputs + yr))"
    using assms(3) return_factor_pos [OF assms(4)] by simp
  then have p: "0 < rPortfolio st
      * (1 + HISTORICAL_RETURNS ! (startIdx + yearsToRetirement inputs + yr)) - rWithdrawal st"
    using assms(2) by linarith
  have w: "rWithdrawal st * (1 + HISTORICAL_INFLATION ! (startIdx + yearsToRetirement inputs + yr))
           < 0"
    using assms(2) inflation_factor_pos [OF assms(4)] by (simp add: mult_less_0_iff)
  show ?thesis using assms(1) p w by (simp add: retirementStep_def Let_def)
qed

text \<open>
  Within the data, running the loop for one more year is running it and then taking the
  body once more.
\<close>

lemma backtestRetirement_bound_Suc:
  assumes "yr \<le> k" and "startIdx + yearsToRetirement inputs + k < 96"
  shows "backtestRetirement inputs (Suc k) startIdx yr st
       = retirementStep inputs startIdx k (backtestRetirement inputs k startIdx yr st)"
  using assms(1)
proof (induction "k - yr" arbitrary: yr st)
  case 0
  then have eq: "yr = k" by simp
  have a: "yr < Suc k" using eq by simp
  have b: "startIdx + yearsToRetirement inputs + yr < 96" using eq assms(2) by simp
  show ?case unfolding backtestRetirement_step [OF a b]
    using eq by (simp add: backtestRetirement_stop)
next
  case (Suc m)
  then have lt: "yr < k" and m: "m = k - (yr + 1)" and le: "yr + 1 \<le> k" by simp_all
  have a: "yr < Suc k" using lt by simp
  have b: "startIdx + yearsToRetirement inputs + yr < 96" using lt assms(2) by simp
  show ?case unfolding backtestRetirement_step [OF a b] backtestRetirement_step [OF lt b]
    by (rule Suc.hyps(1) [OF m le])
qed

lemma retirementAfter_0: "retirementAfter inputs startIdx 0 = retirementStart inputs startIdx"
  by (simp add: retirementAfter_def backtestRetirement_stop)

lemma retirementAfter_Suc:
  assumes "startIdx + yearsToRetirement inputs + k < 96"
  shows "retirementAfter inputs startIdx (Suc k)
       = retirementStep inputs startIdx k (retirementAfter inputs startIdx k)"
  unfolding retirementAfter_def by (rule backtestRetirement_bound_Suc [OF le0 assms])

lemma retirementAfter_withdrawal:
  assumes "0 \<le> currentSavings inputs" and "0 \<le> monthlyContribution inputs"
    and "0 \<le> rWithdrawal (retirementStart inputs startIdx)"
    and "startIdx + yearsToRetirement inputs + n \<le> 96"
  shows "k \<le> n \<Longrightarrow> 0 \<le> rWithdrawal (retirementAfter inputs startIdx k)"
proof (induction k)
  case 0
  show ?case using assms(3) by (simp add: retirementAfter_0)
next
  case (Suc k)
  then have r: "startIdx + yearsToRetirement inputs + k < 96" using assms(4) by simp
  from Suc have "0 \<le> rWithdrawal (retirementAfter inputs startIdx k)" by simp
  from retirementStep_withdrawal [OF r this] show ?case
    unfolding retirementAfter_Suc [OF r] .
qed

lemma retirementAfter_invariant:
  assumes "0 \<le> currentSavings inputs" and "0 \<le> monthlyContribution inputs"
    and "0 \<le> rWithdrawal (retirementStart inputs startIdx)"
    and "startIdx + yearsToRetirement inputs + n \<le> 96"
  shows "k \<le> n \<Longrightarrow>
     (rYearsDepleted (retirementAfter inputs startIdx k) = None \<longrightarrow>
        (\<forall>j. 1 \<le> j \<and> j \<le> k \<longrightarrow> 0 < rPortfolio (retirementAfter inputs startIdx j)))
   \<and> (\<forall>d. rYearsDepleted (retirementAfter inputs startIdx k) = Some d \<longrightarrow>
        d < k \<and> rPortfolio (retirementAfter inputs startIdx k) \<le> 0
      \<and> (\<forall>j. 1 \<le> j \<and> j \<le> d \<longrightarrow> 0 < rPortfolio (retirementAfter inputs startIdx j))
      \<and> rYearsDepleted (retirementAfter inputs startIdx d) = None
      \<and> rYearsDepleted (retirementAfter inputs startIdx (Suc d)) = Some d
      \<and> rPortfolio (retirementAfter inputs startIdx (Suc d)) = 0
      \<and> rLowestValue (retirementAfter inputs startIdx k)
          = rLowestValue (retirementAfter inputs startIdx d)
      \<and> rLowestYear (retirementAfter inputs startIdx k)
          = rLowestYear (retirementAfter inputs startIdx d))"
proof (induction k)
  case 0
  have "startIdx + yearsToRetirement inputs \<le> 96" using assms(4) by simp
  from retirementStart_props [OF assms(1,2) this] show ?case
    by (simp add: retirementAfter_0)
next
  case (Suc k)
  then have r: "startIdx + yearsToRetirement inputs + k < 96" and kn: "k \<le> n"
    using assms(4) by simp_all
  let ?T = "retirementAfter inputs startIdx"
  note IH = Suc.IH [OF kn]
  note step = retirementAfter_Suc [OF r]
  show ?case
  proof (cases "rYearsDepleted (?T k)")
    case None
    with IH have pos: "\<forall>j. 1 \<le> j \<and> j \<le> k \<longrightarrow> 0 < rPortfolio (?T j)" by simp
    note alt = retirementStep_live [OF None, of inputs startIdx k, folded step]
    show ?thesis
    proof (cases "rYearsDepleted (?T (Suc k))")
      case live: None
      with alt have "0 < rPortfolio (?T (Suc k))" by simp
      then have "\<forall>j. 1 \<le> j \<and> j \<le> Suc k \<longrightarrow> 0 < rPortfolio (?T j)"
        using pos by (auto simp: le_Suc_eq)
      with live show ?thesis by simp
    next
      case dep: (Some d')
      with alt have e: "d' = k" "rPortfolio (?T (Suc k)) = 0"
          "rLowestValue (?T (Suc k)) = rLowestValue (?T k)"
          "rLowestYear (?T (Suc k)) = rLowestYear (?T k)" by simp_all
      show ?thesis using dep pos None unfolding e(1) by (simp add: e(2,3,4))
    qed
  next
    case (Some d)
    with IH have d: "d < k" "rPortfolio (?T k) \<le> 0"
      "\<forall>j. 1 \<le> j \<and> j \<le> d \<longrightarrow> 0 < rPortfolio (?T j)"
      "rYearsDepleted (?T d) = None" "rYearsDepleted (?T (Suc d)) = Some d"
      "rPortfolio (?T (Suc d)) = 0"
      "rLowestValue (?T k) = rLowestValue (?T d)" "rLowestYear (?T k) = rLowestYear (?T d)"
      by simp_all
    have wd: "0 \<le> rWithdrawal (?T k)"
      by (rule retirementAfter_withdrawal [OF assms kn])
    from retirementStep_depleted [OF Some d(2) wd r]
    have s: "rYearsDepleted (?T (Suc k)) = Some d" "rPortfolio (?T (Suc k)) \<le> 0"
      "rLowestValue (?T (Suc k)) = rLowestValue (?T k)"
      "rLowestYear (?T (Suc k)) = rLowestYear (?T k)"
      unfolding step by simp_all
    show ?thesis using s d by simp
  qed
qed

lemma retirementAfter_persist:
  assumes "0 \<le> currentSavings inputs" and "0 \<le> monthlyContribution inputs"
    and "0 \<le> rWithdrawal (retirementStart inputs startIdx)"
    and "startIdx + yearsToRetirement inputs + n \<le> 96"
    and "rYearsDepleted (retirementAfter inputs startIdx k) = Some d"
  shows "k + j \<le> n \<Longrightarrow> rYearsDepleted (retirementAfter inputs startIdx (k + j)) = Some d"
proof (induction j)
  case 0
  show ?case using assms(5) by simp
next
  case (Suc j)
  then have r: "startIdx + yearsToRetirement inputs + (k + j) < 96" and kn: "k + j \<le> n"
    using assms(4) by simp_all
  from Suc kn have dep: "rYearsDepleted (retirementAfter inputs startIdx (k + j)) = Some d"
    by simp
  from retirementAfter_invariant [OF assms(1,2,3,4) kn] dep
  have le: "rPortfolio (retirementAfter inputs startIdx (k + j)) \<le> 0" by simp
  have wd: "0 \<le> rWithdrawal (retirementAfter inputs startIdx (k + j))"
    by (rule retirementAfter_withdrawal [OF assms(1,2,3,4) kn])
  from retirementStep_depleted [OF dep le wd r] show ?case
    using retirementAfter_Suc [OF r] by simp
qed

lemma retirementAfter_never_depleted:
  assumes "rYearsDepleted (retirementStart inputs startIdx) = None"
    and "rWithdrawal (retirementStart inputs startIdx) < 0"
    and "0 < rPortfolio (retirementStart inputs startIdx)"
    and "startIdx + yearsToRetirement inputs + n \<le> 96"
  shows "k \<le> n \<Longrightarrow> rYearsDepleted (retirementAfter inputs startIdx k) = None
       \<and> rWithdrawal (retirementAfter inputs startIdx k) < 0
       \<and> 0 < rPortfolio (retirementAfter inputs startIdx k)"
proof (induction k)
  case 0
  show ?case using assms(1,2,3) by (simp add: retirementAfter_0)
next
  case (Suc k)
  then have r: "startIdx + yearsToRetirement inputs + k < 96" and kn: "k \<le> n"
    using assms(4) by simp_all
  from Suc.IH [OF kn]
  have i: "rYearsDepleted (retirementAfter inputs startIdx k) = None"
    "rWithdrawal (retirementAfter inputs startIdx k) < 0"
    "0 < rPortfolio (retirementAfter inputs startIdx k)" by simp_all
  from retirementStep_growing [OF i r] show ?case
    unfolding retirementAfter_Suc [OF r] .
qed

lemma backtest_sequences_length:
  "length (sequences (runHistoricalBacktest inputs currentAge retirementYears))
   = 96 - (yearsToRetirement inputs + retirementYears)"
  unfolding runHistoricalBacktest_def Let_def historical_lengths by simp

lemma backtest_sequences_nth:
  assumes "startIdx < length (sequences (runHistoricalBacktest inputs currentAge retirementYears))"
  shows "sequences (runHistoricalBacktest inputs currentAge retirementYears) ! startIdx
         = backtestSequence inputs retirementYears startIdx"
proof -
  have "startIdx < 96 - (yearsToRetirement inputs + retirementYears)"
    using assms unfolding backtest_sequences_length .
  then show ?thesis
    unfolding runHistoricalBacktest_def Let_def historical_lengths by simp
qed

lemma backtestAccumulation_realReturns:
  "length (rRealReturns (backtestAccumulation inputs startIdx yr st))
   = length (rRealReturns st) + (yearsToRetirement inputs - yr)"
proof (induction "yearsToRetirement inputs - yr" arbitrary: yr st)
  case 0
  then have "\<not> yr < yearsToRetirement inputs" by simp
  then show ?case using 0 by (simp add: backtestAccumulation_stop)
next
  case (Suc m)
  then have lt: "yr < yearsToRetirement inputs" and m: "m = yearsToRetirement inputs - (yr + 1)"
    by simp_all
  have "length (rRealReturns (accumulationStep inputs startIdx yr st))
        = Suc (length (rRealReturns st))"
    by (simp add: accumulationStep_def Let_def)
  with Suc.hyps(1) [OF m, of "accumulationStep inputs startIdx yr st"] lt show ?case
    unfolding backtestAccumulation_step [OF lt] by simp
qed

lemma retirementAfter_realReturns:
  assumes "startIdx + yearsToRetirement inputs + n \<le> 96"
  shows "k \<le> n \<Longrightarrow> length (rRealReturns (retirementAfter inputs startIdx k))
                    = yearsToRetirement inputs + k"
proof (induction k)
  case 0
  show ?case unfolding retirementAfter_0 retirementStart_def Let_def
    by (simp add: backtestAccumulation_realReturns)
next
  case (Suc k)
  then have r: "startIdx + yearsToRetirement inputs + k < 96" using assms by simp
  have "length (rRealReturns (retirementStep inputs startIdx k (retirementAfter inputs startIdx k)))
        = Suc (length (rRealReturns (retirementAfter inputs startIdx k)))"
    by (simp add: retirementStep_def Let_def)
  with Suc show ?case unfolding retirementAfter_Suc [OF r] by simp
qed

lemma historical_1928_1929:
  "HISTORICAL_RETURNS ! 0 = 0.4381" "HISTORICAL_RETURNS ! Suc 0 = - 0.0830"
  "HISTORICAL_INFLATION ! 0 = - 0.0116" "HISTORICAL_INFLATION ! Suc 0 = 0.0058"
  by (simp_all add: HISTORICAL_RETURNS_def HISTORICAL_INFLATION_def)

lemma depleting_start:
  "retirementStart depletingInputs 0 =
     \<lparr>rPortfolio = 100, rLowestValue = 100, rLowestYear = 1928, rYearsDepleted = None,
      rRealReturns = [], rWithdrawal = 200\<rparr>"
  by (simp add: retirementStart_def depletingInputs_def backtestAccumulation_stop)

lemma depleting_after_1:
  "retirementAfter depletingInputs 0 1 =
     \<lparr>rPortfolio = 0, rLowestValue = 100, rLowestYear = 1928, rYearsDepleted = Some 0,
      rRealReturns = [(1 + 0.4381) / (1 - 0.0116) - 1], rWithdrawal = 200 * (1 - 0.0116)\<rparr>"
proof -
  have r: "0 + yearsToRetirement depletingInputs + 0 < 96" by (simp add: depletingInputs_def)
  have y: "yearsToRetirement depletingInputs = 0" by (simp add: depletingInputs_def)
  show ?thesis
    unfolding One_nat_def retirementAfter_Suc [OF r] retirementAfter_0 depleting_start
    by (simp add: retirementStep_def y historical_1928_1929 Let_def)
qed

lemma depleting_after_2:
  "rPortfolio (retirementAfter depletingInputs 0 2) = - 197.68
   \<and> rYearsDepleted (retirementAfter depletingInputs 0 2) = Some 0"
proof -
  have r: "0 + yearsToRetirement depletingInputs + 1 < 96" by (simp add: depletingInputs_def)
  have y: "yearsToRetirement depletingInputs = 0" by (simp add: depletingInputs_def)
  have two: "(2::nat) = Suc 1" by simp
  show ?thesis
    unfolding two retirementAfter_Suc [OF r] depleting_after_1
    by (simp add: retirementStep_def y historical_1928_1929 Let_def)
qed


section \<open>runHistoricalBacktest: depletion\<close>

text \<open>
  Claim C7, as stated, fails where it says that the portfolio is clamped to 0 for the
  remainder of the sequence. The loop sets the portfolio to 0 in the year of the
  depletion only; in the years after it the withdrawals go on and the portfolio is
  negative. For savings of 100 withdrawn at 200 a year from 1928, \<open>yearsDepleted\<close> is 0
  and the portfolio after the second year is -197.68.
\<close>

theorem backtest_depletion_counterexample:
  "yearsDepleted (sequences (runHistoricalBacktest depletingInputs 35 2) ! 0) = Some 0
   \<and> rPortfolio (backtestRetirement depletingInputs 2 0 0 (retirementStart depletingInputs 0))
       = - 197.68
   \<and> rPortfolio (backtestRetirement depletingInputs 2 0 0 (retirementStart depletingInputs 0))
       \<noteq> 0"
proof -
  have l: "0 < length (sequences (runHistoricalBacktest depletingInputs 35 2))"
    by (simp add: backtest_sequences_length depletingInputs_def)
  have d: "yearsDepleted (sequences (runHistoricalBacktest depletingInputs 35 2) ! 0) = Some 0"
    unfolding backtest_sequences_nth [OF l] backtestSequence_def Let_def
      retirementAfter_def [symmetric]
    using depleting_after_2 by simp
  show ?thesis using d depleting_after_2 unfolding retirementAfter_def by simp
qed

text \<open>
  Claim C7, amended. Take non-negative savings and contributions, and a
  sequence \<open>s\<close> of the result whose \<open>yearsDepleted\<close> is \<open>d\<close>. Then \<open>d\<close> is the first
  year-offset of the retirement replay at which the portfolio drops to 0 or below: after
  each of the years before \<open>d\<close> the portfolio is positive and \<open>yearsDepleted\<close> is not yet
  set, and in year \<open>d\<close> it is set and the portfolio is set to 0. For the remainder of the
  sequence the replay goes on (one real return is recorded for every year of the
  horizon) and the portfolio is never positive again, so that its reported value,
  clamped at 0, is 0: \<open>finalValue\<close> is 0 and \<open>survived\<close> is false. \<open>lowestValue\<close> and
  \<open>lowestYear\<close> are those the replay held when year \<open>d\<close> began: they are never taken
  from the year of the depletion or a later one.
\<close>

theorem backtest_depletion_final:
  assumes "0 \<le> currentSavings inputs" and "0 \<le> monthlyContribution inputs"
    and "res = runHistoricalBacktest inputs currentAge retirementYears"
    and "startIdx < length (sequences res)"
    and "s = sequences res ! startIdx"
    and "yearsDepleted s = Some d"
  shows "d < retirementYears
    \<and> (\<forall>k. 1 \<le> k \<and> k \<le> d \<longrightarrow> 0 < rPortfolio (retirementAfter inputs startIdx k))
    \<and> rYearsDepleted (retirementAfter inputs startIdx d) = None
    \<and> rYearsDepleted (retirementAfter inputs startIdx (Suc d)) = Some d
    \<and> rPortfolio (retirementAfter inputs startIdx (Suc d)) = 0
    \<and> (\<forall>k. d < k \<and> k \<le> retirementYears \<longrightarrow>
          rPortfolio (retirementAfter inputs startIdx k) \<le> 0
        \<and> max 0 (rPortfolio (retirementAfter inputs startIdx k)) = 0)
    \<and> finalValue s = 0 \<and> \<not> survived s
    \<and> lowestValue s = max 0 (rLowestValue (retirementAfter inputs startIdx d))
    \<and> lowestYear s = rLowestYear (retirementAfter inputs startIdx d)
    \<and> length (realReturns s) = yearsToRetirement inputs + retirementYears"
proof -
  let ?T = "retirementAfter inputs startIdx"
  have "startIdx < 96 - (yearsToRetirement inputs + retirementYears)"
    using assms(4) unfolding assms(3) backtest_sequences_length .
  then have r: "startIdx + yearsToRetirement inputs + retirementYears \<le> 96" by simp
  have s: "s = backtestSequence inputs retirementYears startIdx"
    unfolding assms(5) assms(3) using assms(4) [unfolded assms(3)]
    by (rule backtest_sequences_nth)
  have fin: "rYearsDepleted (?T retirementYears) = Some d"
    using assms(6) unfolding s backtestSequence_def Let_def retirementAfter_def by simp
  have r0: "startIdx + yearsToRetirement inputs \<le> 96" using r by simp
  note start = retirementStart_props [OF assms(1,2) r0]
  have wd: "0 \<le> rWithdrawal (retirementStart inputs startIdx)"
  proof (rule ccontr)
    assume "\<not> 0 \<le> rWithdrawal (retirementStart inputs startIdx)"
    then have neg: "rWithdrawal (retirementStart inputs startIdx) < 0" by simp
    have "rPortfolio (retirementStart inputs startIdx) \<noteq> 0" using neg start by auto
    with start have pos: "0 < rPortfolio (retirementStart inputs startIdx)" by simp
    from retirementAfter_never_depleted [OF conjunct1 [OF start] neg pos r le_refl] fin
    show False by simp
  qed
  from retirementAfter_invariant [OF assms(1,2) wd r le_refl]
  have "\<forall>d. rYearsDepleted (?T retirementYears) = Some d \<longrightarrow>
        d < retirementYears \<and> rPortfolio (?T retirementYears) \<le> 0
      \<and> (\<forall>j. 1 \<le> j \<and> j \<le> d \<longrightarrow> 0 < rPortfolio (?T j))
      \<and> rYearsDepleted (?T d) = None
      \<and> rYearsDepleted (?T (Suc d)) = Some d
      \<and> rPortfolio (?T (Suc d)) = 0
      \<and> rLowestValue (?T retirementYears) = rLowestValue (?T d)
      \<and> rLowestYear (?T retirementYears) = rLowestYear (?T d)" by (rule conjunct2)
  with fin have d: "d < retirementYears" "rPortfolio (?T retirementYears) \<le> 0"
      "\<forall>j. 1 \<le> j \<and> j \<le> d \<longrightarrow> 0 < rPortfolio (?T j)"
      "rYearsDepleted (?T d) = None" "rYearsDepleted (?T (Suc d)) = Some d"
      "rPortfolio (?T (Suc d)) = 0"
      "rLowestValue (?T retirementYears) = rLowestValue (?T d)"
      "rLowestYear (?T retirementYears) = rLowestYear (?T d)"
    by blast+
  have after: "\<forall>k. d < k \<and> k \<le> retirementYears \<longrightarrow>
          rPortfolio (?T k) \<le> 0 \<and> max 0 (rPortfolio (?T k)) = 0"
  proof (intro allI impI)
    fix k assume k: "d < k \<and> k \<le> retirementYears"
    define j where "j = k - Suc d"
    have kj: "k = Suc d + j" using k by (simp add: j_def)
    have kn: "Suc d + j \<le> retirementYears" using k kj by simp
    have dep: "rYearsDepleted (?T k) = Some d"
      unfolding kj by (rule retirementAfter_persist [OF assms(1,2) wd r d(5) kn])
    have kle: "k \<le> retirementYears" using k by simp
    from retirementAfter_invariant [OF assms(1,2) wd r kle]
    have "\<forall>d. rYearsDepleted (?T k) = Some d \<longrightarrow>
        d < k \<and> rPortfolio (?T k) \<le> 0
      \<and> (\<forall>j. 1 \<le> j \<and> j \<le> d \<longrightarrow> 0 < rPortfolio (?T j))
      \<and> rYearsDepleted (?T d) = None
      \<and> rYearsDepleted (?T (Suc d)) = Some d
      \<and> rPortfolio (?T (Suc d)) = 0
      \<and> rLowestValue (?T k) = rLowestValue (?T d)
      \<and> rLowestYear (?T k) = rLowestYear (?T d)" by (rule conjunct2)
    with dep have "rPortfolio (?T k) \<le> 0" by blast
    then show "rPortfolio (?T k) \<le> 0 \<and> max 0 (rPortfolio (?T k)) = 0" by simp
  qed
  have fv: "finalValue s = 0"
    using d(2) unfolding s backtestSequence_def Let_def retirementAfter_def by simp
  have sv: "\<not> survived s"
    using d(2) unfolding s backtestSequence_def Let_def retirementAfter_def by simp
  have lv: "lowestValue s = max 0 (rLowestValue (?T d))"
    using d(7) unfolding s backtestSequence_def Let_def retirementAfter_def by simp
  have ly: "lowestYear s = rLowestYear (?T d)"
    using d(8) unfolding s backtestSequence_def Let_def retirementAfter_def by simp
  have rr: "length (realReturns s) = yearsToRetirement inputs + retirementYears"
    using retirementAfter_realReturns [OF r le_refl]
    unfolding s backtestSequence_def Let_def retirementAfter_def by simp
  show ?thesis
  proof (intro conjI)
    show "d < retirementYears" by (rule d(1))
    show "\<forall>k. 1 \<le> k \<and> k \<le> d \<longrightarrow> 0 < rPortfolio (?T k)" by (rule d(3))
    show "rYearsDepleted (?T d) = None" by (rule d(4))
    show "rYearsDepleted (?T (Suc d)) = Some d" by (rule d(5))
    show "rPortfolio (?T (Suc d)) = 0" by (rule d(6))
    show "\<forall>k. d < k \<and> k \<le> retirementYears \<longrightarrow>
          rPortfolio (?T k) \<le> 0 \<and> max 0 (rPortfolio (?T k)) = 0" by (rule after)
    show "finalValue s = 0" by (rule fv)
    show "\<not> survived s" by (rule sv)
    show "lowestValue s = max 0 (rLowestValue (?T d))" by (rule lv)
    show "lowestYear s = rLowestYear (?T d)" by (rule ly)
    show "length (realReturns s) = yearsToRetirement inputs + retirementYears" by (rule rr)
  qed
qed

text \<open>Savings of 100 withdrawn at 200 a year from 1928, over two years.\<close>

theorem backtest_depletion_final_witness:
  "0 \<le> currentSavings depletingInputs \<and> 0 \<le> monthlyContribution depletingInputs
   \<and> 0 < length (sequences (runHistoricalBacktest depletingInputs 35 2))
   \<and> yearsDepleted (sequences (runHistoricalBacktest depletingInputs 35 2) ! 0) = Some 0
   \<and> (0::nat) < 2
   \<and> rPortfolio (retirementAfter depletingInputs 0 (Suc 0)) = 0
   \<and> max 0 (rPortfolio (retirementAfter depletingInputs 0 2)) = 0
   \<and> finalValue (sequences (runHistoricalBacktest depletingInputs 35 2) ! 0) = 0
   \<and> \<not> survived (sequences (runHistoricalBacktest depletingInputs 35 2) ! 0)
   \<and> lowestValue (sequences (runHistoricalBacktest depletingInputs 35 2) ! 0) = 100
   \<and> lowestYear (sequences (runHistoricalBacktest depletingInputs 35 2) ! 0) = 1928"
proof -
  have h: "0 \<le> currentSavings depletingInputs" "0 \<le> monthlyContribution depletingInputs"
    by (simp_all add: depletingInputs_def)
  have l: "0 < length (sequences (runHistoricalBacktest depletingInputs 35 2))"
    by (simp add: backtest_sequences_length depletingInputs_def)
  have d: "yearsDepleted (sequences (runHistoricalBacktest depletingInputs 35 2) ! 0) = Some 0"
    unfolding backtest_sequences_nth [OF l] backtestSequence_def Let_def
      retirementAfter_def [symmetric]
    using depleting_after_2 by simp
  have two: "(0::nat) < 2 \<and> 2 \<le> (2::nat)" by simp
  from backtest_depletion_final [OF h refl l refl d]
  have "(\<forall>k. 0 < k \<and> k \<le> 2 \<longrightarrow>
          rPortfolio (retirementAfter depletingInputs 0 k) \<le> 0
        \<and> max 0 (rPortfolio (retirementAfter depletingInputs 0 k)) = 0)"
    and rest: "(0::nat) < 2" "rPortfolio (retirementAfter depletingInputs 0 (Suc 0)) = 0"
       "finalValue (sequences (runHistoricalBacktest depletingInputs 35 2) ! 0) = 0"
       "\<not> survived (sequences (runHistoricalBacktest depletingInputs 35 2) ! 0)"
       "lowestValue (sequences (runHistoricalBacktest depletingInputs 35 2) ! 0)
          = max 0 (rLowestValue (retirementAfter depletingInputs 0 0))"
       "lowestYear (sequences (runHistoricalBacktest depletingInputs 35 2) ! 0)
          = rLowestYear (retirementAfter depletingInputs 0 0)"
    by blast+
  then have m: "max 0 (rPortfolio (retirementAfter depletingInputs 0 2)) = 0"
    using two by blast
  have lo: "max 0 (rLowestValue (retirementAfter depletingInputs 0 0)) = 100"
    "rLowestYear (retirementAfter depletingInputs 0 0) = 1928"
    unfolding retirementAfter_0 depleting_start by simp_all
  show ?thesis using h l d rest m unfolding lo by blast
qed

section \<open>projectCPF: the records and the variables of the loop\<close>

lemma projectLoop_stop:
  "\<not> yr \<le> n \<Longrightarrow> projectLoop monthlySalary currentAge n stopAge yr st = []"
  by (subst projectLoop.simps) simp

lemma projectLoop_step:
  "yr \<le> n \<Longrightarrow> projectLoop monthlySalary currentAge n stopAge yr st =
     fst (projectStep monthlySalary currentAge stopAge yr st)
     # projectLoop monthlySalary currentAge n stopAge (yr + 1)
         (snd (projectStep monthlySalary currentAge stopAge yr st))"
  by (subst projectLoop.simps) (simp add: case_prod_beta)

lemma projectCPF_nth_aux:
  assumes "k + j \<le> n"
  shows "projectLoop monthlySalary currentAge n stopAge k
           (projectStateAt bal monthlySalary currentAge stopAge k) ! j
       = fst (projectStep monthlySalary currentAge stopAge (k + j)
           (projectStateAt bal monthlySalary currentAge stopAge (k + j)))"
  using assms
proof (induction j arbitrary: k)
  case 0
  then have "k \<le> n" by simp
  then show ?case by (simp add: projectLoop_step)
next
  case (Suc j)
  then have le: "k \<le> n" and s: "Suc k + j \<le> n" by simp_all
  from Suc.IH [OF s] show ?case
    unfolding projectLoop_step [OF le] by simp
qed

lemma projectCPF_nth:
  assumes "j \<le> n"
  shows "projectCPF bal monthlySalary currentAge n stopAge ! j
       = fst (projectStep monthlySalary currentAge stopAge j
           (projectStateAt bal monthlySalary currentAge stopAge j))"
  using projectCPF_nth_aux [of 0 j n monthlySalary currentAge stopAge bal] assms
  by (simp add: projectCPF_def)

section \<open>projectCPF: the balances stay non-negative\<close>

text \<open>
  With a non-negative salary and non-negative SA and MA balances, the contributions and
  the interest of these two accounts are non-negative, so the balances stay so. An empty
  SA earns no interest.
\<close>

lemma contribution_nonneg:
  assumes "0 \<le> monthlySalary"
  shows "0 \<le> SA (calculateCPFContribution monthlySalary a)
       \<and> 0 \<le> MA (calculateCPFContribution monthlySalary a)"
proof -
  have "0 \<le> min monthlySalary OA_WAGE_CEILING" using assms by (simp add: OA_WAGE_CEILING_def)
  then show ?thesis
    by (simp add: calculateCPFContribution_def Let_def UNDER_55_def AGE_55_60_def
          AGE_60_65_def AGE_65_70_def)
qed

lemma saRatio_bounds:
  assumes "0 \<le> (s::real)" and "0 \<le> m"
  shows "0 \<le> (if s + m > 0 then s / (s + m) else 0.5)
       \<and> (if s + m > 0 then s / (s + m) else 0.5) \<le> 1"
  using assms by (auto simp: divide_le_eq)

lemma interest_nonneg:
  assumes "0 \<le> SA b" and "0 \<le> MA b"
  shows "0 \<le> SA (calculateCPFInterest b a) \<and> 0 \<le> MA (calculateCPFInterest b a)"
proof -
  define r where "r = (if SA b + MA b > 0 then SA b / (SA b + MA b) else 0.5)"
  define e60 where "e60 = min (SA b + MA b) (60000 - min (OA b) 20000)"
  define e30 where "e30 = min (SA b + MA b) (30000 - min (OA b) 30000)"
  have r: "0 \<le> r" "0 \<le> 1 - r" using saRatio_bounds [OF assms] unfolding r_def by simp_all
  have e: "0 \<le> e60" "0 \<le> e30" using assms unfolding e60_def e30_def by simp_all
  have t: "0 \<le> e60 * r" "0 \<le> e60 * (1 - r)" "0 \<le> e30 * r" "0 \<le> e30 * (1 - r)"
    using r e by simp_all
  have sa: "SA (calculateCPFInterest b a) =
      SA b * CPF_RATES_SA + e60 * r * CPF_RATES_EXTRA_FIRST_60K
      + (if a \<ge> 55 then e30 * r * CPF_RATES_EXTRA_55_PLUS_FIRST_30K else 0)"
    by (simp add: calculateCPFInterest_def Let_def r_def e60_def e30_def)
  have ma: "MA (calculateCPFInterest b a) =
      MA b * CPF_RATES_MA + e60 * (1 - r) * CPF_RATES_EXTRA_FIRST_60K
      + (if a \<ge> 55 then e30 * (1 - r) * CPF_RATES_EXTRA_55_PLUS_FIRST_30K else 0)"
    by (simp add: calculateCPFInterest_def Let_def r_def e60_def e30_def)
  show ?thesis unfolding sa ma using assms t
    by (simp add: CPF_RATES_SA_def CPF_RATES_MA_def CPF_RATES_EXTRA_FIRST_60K_def
          CPF_RATES_EXTRA_55_PLUS_FIRST_30K_def)
qed

lemma interest_SA_zero:
  assumes "SA b = 0" and "0 \<le> MA b"
  shows "SA (calculateCPFInterest b a) = 0"
proof (cases "MA b = 0")
  case True
  then show ?thesis using assms
    by (simp add: calculateCPFInterest_def Let_def)
next
  case False
  then have "0 < MA b" using assms(2) by simp
  then show ?thesis using assms
    by (simp add: calculateCPFInterest_def Let_def)
qed

lemma projectStep_nonneg:
  assumes "0 \<le> monthlySalary" and "0 \<le> accSA st" and "0 \<le> accMA st"
  shows "0 \<le> accSA (snd (projectStep monthlySalary currentAge stopAge yr st))
       \<and> 0 \<le> accMA (snd (projectStep monthlySalary currentAge stopAge yr st))"
proof -
  define st1 where "st1 = (if currentAge + int yr = 55 \<and> yr > 0
                           then st\<lparr>accRA := accSA st, accSA := 0\<rparr> else st)"
  define b where "b = \<lparr>OA = accOA st1, SA = accSA st1, MA = accMA st1,
                        totalBal = accOA st1 + accSA st1 + accMA st1\<rparr>"
  have s1: "0 \<le> accSA st1" "0 \<le> accMA st1" using assms(2,3) unfolding st1_def by simp_all
  then have "0 \<le> SA b" "0 \<le> MA b" unfolding b_def by simp_all
  note i = interest_nonneg [OF this, of "currentAge + int yr"]
  note c = contribution_nonneg [OF assms(1), of "currentAge + int yr"]
  have sa: "accSA (snd (projectStep monthlySalary currentAge stopAge yr st)) =
      accSA st1 + ((if currentAge + int yr < stopAge
                    then SA (calculateCPFContribution monthlySalary (currentAge + int yr)) * 12
                    else 0)
                   + SA (calculateCPFInterest b (currentAge + int yr)))"
    by (simp add: projectStep_def Let_def st1_def b_def)
  have ma: "accMA (snd (projectStep monthlySalary currentAge stopAge yr st)) =
      accMA st1 + ((if currentAge + int yr < stopAge
                    then MA (calculateCPFContribution monthlySalary (currentAge + int yr)) * 12
                    else 0)
                   + MA (calculateCPFInterest b (currentAge + int yr)))"
    by (simp add: projectStep_def Let_def st1_def b_def)
  show ?thesis unfolding sa ma using s1 i c by simp
qed

lemma projectStateAt_nonneg:
  assumes "0 \<le> monthlySalary" and "0 \<le> SA bal" and "0 \<le> MA bal"
  shows "0 \<le> accSA (projectStateAt bal monthlySalary currentAge stopAge k)
       \<and> 0 \<le> accMA (projectStateAt bal monthlySalary currentAge stopAge k)"
proof (induction k)
  case 0
  show ?case using assms by simp
next
  case (Suc k)
  then show ?case using projectStep_nonneg [OF assms(1)] by simp
qed

section \<open>projectCPF: the transfer at age 55\<close>

lemma mathRound_0: "mathRound 0 = 0"
  by (simp add: mathRound_def)

text \<open>The iteration of age 55, when it is not the first one.\<close>

lemma projectStep_at_55:
  assumes "currentAge + int k = 55" and "0 < k"
  shows "projSA (fst (projectStep monthlySalary currentAge stopAge k st)) = 0"
    and "projRA (fst (projectStep monthlySalary currentAge stopAge k st)) = mathRound (accSA st)"
    and "projAge (fst (projectStep monthlySalary currentAge stopAge k st)) = 55"
    and "interest (fst (projectStep monthlySalary currentAge stopAge k st)) =
           mathRound (totalBal (calculateCPFInterest
             \<lparr>OA = accOA st, SA = 0, MA = accMA st, totalBal = accOA st + 0 + accMA st\<rparr> 55))"
    and "accRA (snd (projectStep monthlySalary currentAge stopAge k st))
           = accSA st + accSA st * CPF_RATES_RA"
    and "accSA (snd (projectStep monthlySalary currentAge stopAge k st))
           = 0 + ((if 55 < stopAge then SA (calculateCPFContribution monthlySalary 55) * 12 else 0)
                  + SA (calculateCPFInterest
                      \<lparr>OA = accOA st, SA = 0, MA = accMA st,
                       totalBal = accOA st + 0 + accMA st\<rparr> 55))"
  using assms by (simp_all add: projectStep_def Let_def mathRound_0)

lemma projectStep_record:
  assumes "currentAge + int k \<noteq> 55"
  shows "projSA (fst (projectStep monthlySalary currentAge stopAge k st)) = mathRound (accSA st)"
    and "projRA (fst (projectStep monthlySalary currentAge stopAge k st)) = mathRound (accRA st)"
    and "projAge (fst (projectStep monthlySalary currentAge stopAge k st)) = currentAge + int k"
  using assms by (simp_all add: projectStep_def Let_def)


lemmas cpf_rates = CPF_RATES_OA_def CPF_RATES_SA_def CPF_RATES_MA_def CPF_RATES_RA_def
  CPF_RATES_EXTRA_FIRST_60K_def CPF_RATES_EXTRA_55_PLUS_FIRST_30K_def

lemma interest_saOnly:
  "calculateCPFInterest \<lparr>OA = 0, SA = 1000, MA = 0, totalBal = 1000\<rparr> 54
   = \<lparr>OA = 0, SA = 50, MA = 0, totalBal = 50\<rparr>"
  by (simp add: calculateCPFInterest_def Let_def cpf_rates)

lemma interest_empty:
  "calculateCPFInterest \<lparr>OA = 0, SA = 0, MA = 0, totalBal = 0\<rparr> a
   = \<lparr>OA = 0, SA = 0, MA = 0, totalBal = 0\<rparr>"
  by (simp add: calculateCPFInterest_def Let_def cpf_rates)

lemma contribution_no_salary:
  "calculateCPFContribution 0 a = \<lparr>OA = 0, SA = 0, MA = 0, totalBal = 0\<rparr>"
  by (simp add: calculateCPFContribution_def Let_def OA_WAGE_CEILING_def)

lemma saOnly_state_1:
  "projectStateAt saOnly 0 54 55 (Suc 0) = \<lparr>accOA = 0, accSA = 1050, accMA = 0, accRA = 0\<rparr>"
  by (simp add: saOnly_def projectStep_def Let_def interest_saOnly contribution_no_salary)

lemma saOnly_state_2:
  "projectStateAt saOnly 0 54 55 (Suc (Suc 0))
   = \<lparr>accOA = 0, accSA = 0, accMA = 0, accRA = 1092\<rparr>"
  unfolding projectStateAt.simps(2) [of _ _ _ _ "Suc 0"] saOnly_state_1
  by (simp add: projectStep_def Let_def interest_empty CPF_RATES_RA_def)

lemma saOnly_record_1:
  "projSA (projectCPF saOnly 0 54 2 55 ! 1) = 0 \<and> projRA (projectCPF saOnly 0 54 2 55 ! 1) = 1050"
proof -
  have "(1::nat) \<le> 2" by simp
  from projectCPF_nth [OF this, of saOnly 0 54 55] show ?thesis
    unfolding One_nat_def saOnly_state_1
    by (simp add: projectStep_def Let_def mathRound_def)
qed

lemma saOnly_record_2:
  "projSA (projectCPF saOnly 0 54 2 55 ! 2) = 0 \<and> projRA (projectCPF saOnly 0 54 2 55 ! 2) = 1092"
proof -
  have two: "(2::nat) = Suc (Suc 0)" by simp
  have "(2::nat) \<le> 2" by simp
  from projectCPF_nth [OF this, of saOnly 0 54 55] show ?thesis
    unfolding two saOnly_state_2
    by (simp add: projectStep_def Let_def mathRound_def)
qed

text \<open>
  Claim C1, as stated, fails. From balances with 1000 in SA at age 54, no salary, two
  years projected: the record for age 55 already shows SA as 0 and RA as 1050, the SA
  balance the iteration found, so the transfer is made before the record is pushed
  (and before the interest of the year is computed). RA at the record for age 56 is
  1092: neither the SA of the record for age 55, which is 0, nor the SA before the
  transfer, which is 1050.
\<close>

theorem cpf_age55_transfer_counterexample:
  "projSA (projectCPF saOnly 0 54 2 55 ! 1) = 0
   \<and> projRA (projectCPF saOnly 0 54 2 55 ! 1) = 1050
   \<and> projRA (projectCPF saOnly 0 54 2 55 ! 2) = 1092
   \<and> projRA (projectCPF saOnly 0 54 2 55 ! 2) \<noteq> projSA (projectCPF saOnly 0 54 2 55 ! 1)
   \<and> accSA (projectStateAt saOnly 0 54 55 1) = 1050
   \<and> projRA (projectCPF saOnly 0 54 2 55 ! 2) \<noteq> accSA (projectStateAt saOnly 0 54 55 1)"
proof -
  have s: "accSA (projectStateAt saOnly 0 54 55 1) = 1050"
    unfolding One_nat_def saOnly_state_1 by simp
  show ?thesis using saOnly_record_1 saOnly_record_2 unfolding s by simp
qed


text \<open>
  Claim C1, amended. Take a projection that crosses age 55 (\<open>currentAge < 55\<close>, and the
  years projected reach age 56) from non-negative SA and MA balances and a non-negative
  salary, and let \<open>st\<close> be the variables as the iteration of age 55 finds them. The
  transfer of SA to RA happens in that iteration before its interest is computed and
  before its record is pushed: the record for age 55 shows SA as 0 and RA as the rounded
  SA of \<open>st\<close>, and its interest is computed on the balances after the transfer. RA then
  earns 4 percent: RA at the record for age 56 is the rounded 1.04 times the SA of \<open>st\<close>.
  SA at the record for age 56 is the rounded SA share of the contributions of age 55,
  which is 0 when contributions stop at 55 or before.
\<close>

theorem cpf_age55_transfer:
  assumes "currentAge < 55" and "k = nat (55 - currentAge)" and "Suc k \<le> yearsToProject"
    and "0 \<le> SA bal" and "0 \<le> MA bal" and "0 \<le> monthlySalary"
    and "ps = projectCPF bal monthlySalary currentAge yearsToProject stopAge"
    and "st = projectStateAt bal monthlySalary currentAge stopAge k"
  shows "projAge (ps ! k) = 55 \<and> projAge (ps ! Suc k) = 56
     \<and> projSA (ps ! k) = 0
     \<and> projRA (ps ! k) = mathRound (accSA st)
     \<and> interest (ps ! k) = mathRound (totalBal (calculateCPFInterest
           \<lparr>OA = accOA st, SA = 0, MA = accMA st, totalBal = accOA st + 0 + accMA st\<rparr> 55))
     \<and> projRA (ps ! Suc k) = mathRound (accSA st * 1.04)
     \<and> projSA (ps ! Suc k) = mathRound
           (if 55 < stopAge then SA (calculateCPFContribution monthlySalary 55) * 12 else 0)
     \<and> (stopAge \<le> 55 \<longrightarrow> projSA (ps ! Suc k) = 0)"
proof -
  have a55: "currentAge + int k = 55" and kpos: "0 < k" using assms(1,2) by simp_all
  have a56: "currentAge + int (Suc k) \<noteq> 55" "currentAge + int (Suc k) = 56"
    using a55 by simp_all
  have kle: "k \<le> yearsToProject" using assms(3) by simp
  have rk: "ps ! k = fst (projectStep monthlySalary currentAge stopAge k st)"
    unfolding assms(7,8) by (rule projectCPF_nth [OF kle])
  let ?st' = "snd (projectStep monthlySalary currentAge stopAge k st)"
  have rk1: "ps ! Suc k = fst (projectStep monthlySalary currentAge stopAge (Suc k) ?st')"
    unfolding assms(7,8) using projectCPF_nth [OF assms(3)] by simp
  have ma: "0 \<le> accMA st"
    unfolding assms(8) using projectStateAt_nonneg [OF assms(6,4,5)] by simp
  have si: "SA (calculateCPFInterest
      \<lparr>OA = accOA st, SA = 0, MA = accMA st, totalBal = accOA st + 0 + accMA st\<rparr> 55) = 0"
    by (rule interest_SA_zero) (simp_all add: ma)
  have ra': "accRA ?st' = accSA st * 1.04"
    unfolding projectStep_at_55(5) [OF a55 kpos] by (simp add: CPF_RATES_RA_def algebra_simps)
  have sa': "accSA ?st'
      = (if 55 < stopAge then SA (calculateCPFContribution monthlySalary 55) * 12 else 0)"
    unfolding projectStep_at_55(6) [OF a55 kpos] si by simp
  have c1: "projAge (ps ! k) = 55" unfolding rk by (rule projectStep_at_55(3) [OF a55 kpos])
  have c2: "projAge (ps ! Suc k) = 56" unfolding rk1 projectStep_record(3) [OF a56(1)]
    by (rule a56(2))
  have c3: "projSA (ps ! k) = 0" unfolding rk by (rule projectStep_at_55(1) [OF a55 kpos])
  have c4: "projRA (ps ! k) = mathRound (accSA st)"
    unfolding rk by (rule projectStep_at_55(2) [OF a55 kpos])
  have c5: "interest (ps ! k) = mathRound (totalBal (calculateCPFInterest
           \<lparr>OA = accOA st, SA = 0, MA = accMA st, totalBal = accOA st + 0 + accMA st\<rparr> 55))"
    unfolding rk by (rule projectStep_at_55(4) [OF a55 kpos])
  have c6: "projRA (ps ! Suc k) = mathRound (accSA st * 1.04)"
    unfolding rk1 projectStep_record(2) [OF a56(1)] ra' ..
  have c7: "projSA (ps ! Suc k) = mathRound
           (if 55 < stopAge then SA (calculateCPFContribution monthlySalary 55) * 12 else 0)"
    unfolding rk1 projectStep_record(1) [OF a56(1)] sa' ..
  have c8: "stopAge \<le> 55 \<longrightarrow> projSA (ps ! Suc k) = 0"
    unfolding c7 by (simp add: mathRound_0)
  show ?thesis using c1 c2 c3 c4 c5 c6 c7 c8 by blast
qed

text \<open>
  From 1000 in SA at age 54: with a salary of 5000 and contributions until 60, SA at the
  record for age 56 is 3601; with no salary and contributions until 55 it is 0.
\<close>

theorem cpf_age55_transfer_witness:
  "(54::int) < 55 \<and> (1::nat) = nat (55 - 54) \<and> Suc 1 \<le> (2::nat)
   \<and> 0 \<le> SA saOnly \<and> 0 \<le> MA saOnly \<and> (0::real) \<le> 5000 \<and> (55::int) \<le> 55
   \<and> projAge (projectCPF saOnly 5000 54 2 60 ! 1) = 55
   \<and> projSA (projectCPF saOnly 5000 54 2 60 ! 1) = 0
   \<and> projSA (projectCPF saOnly 5000 54 2 60 ! Suc 1) = 3601
   \<and> projSA (projectCPF saOnly 0 54 2 55 ! Suc 1) = 0"
proof -
  have h: "(54::int) < 55" "(1::nat) = nat (55 - 54)" "Suc 1 \<le> (2::nat)"
    "0 \<le> SA saOnly" "0 \<le> MA saOnly" "(0::real) \<le> 5000" "(0::real) \<le> 0"
    by (simp_all add: saOnly_def)
  have c: "mathRound (if (55::int) < 60 then SA (calculateCPFContribution 5000 55) * 12 else 0)
           = 3601"
    by (simp add: calculateCPFContribution_def Let_def OA_WAGE_CEILING_def UNDER_55_def
          mathRound_def)
  from cpf_age55_transfer [OF h(1,2,3,4,5,6) refl refl, of 60]
  have a: "projAge (projectCPF saOnly 5000 54 2 60 ! 1) = 55"
    "projSA (projectCPF saOnly 5000 54 2 60 ! 1) = 0"
    "projSA (projectCPF saOnly 5000 54 2 60 ! Suc 1) = 3601"
    unfolding c by blast+
  from cpf_age55_transfer [OF h(1,2,3,4,5,7) refl refl, of 55]
  have b: "projSA (projectCPF saOnly 0 54 2 55 ! Suc 1) = 0" by simp
  show ?thesis using h a b by simp
qed

end
